theory Spec2Isabelle
  imports Main
begin

section \<open>Reverse-replication job creation: the data\<close>

text \<open>
  A Go \<^verbatim>\<open>error\<close> value is modelled by its message; \<open>None\<close> is \<^verbatim>\<open>nil\<close>.
  A function that returns \<^verbatim>\<open>(v, err)\<close> returns the pair here as well, since the
  callers in \<^verbatim>\<open>reverserepl/create.go\<close> store \<^verbatim>\<open>v\<close> before they look at \<^verbatim>\<open>err\<close>.
\<close>

type_synonym error = string

text \<open>
  \<^verbatim>\<open>JobData\<close> is declared in a file of package \<^verbatim>\<open>reverserepl\<close> that is not among the
  sources at hand. Its fields are the ones \<^verbatim>\<open>create.go\<close> reads and writes, with the types
  their uses fix: strings, the integer \<^verbatim>\<open>TimerInterval\<close> (compared with 1) and the
  boolean \<^verbatim>\<open>IsSMTBucketRequired\<close>.
\<close>

record JobData =
  JobName :: string
  InstanceId :: string
  DatabaseId :: string
  SpannerProjectId :: string
  SessionFilePath :: string
  SourceConnectionConfig :: string
  SourceType :: string
  MetadataInstance :: string
  MetadataDatabase :: string
  GcsDataDirectory :: string
  ChangeStreamName :: string
  FiltrationMode :: string
  TimerInterval :: int
  WindowDuration :: string
  ShardingCustomJarPath :: string
  ShardingCustomClassName :: string
  StartTimestamp :: string
  EndTimestamp :: string
  MetadataTableSuffix :: string
  SkipDirectoryName :: string
  SourceDbTimezoneOffset :: string
  ReaderCfg :: string
  WriterCfg :: string
  IsSMTBucketRequired :: bool
  SmtBucketName :: string
  SessionFileGcsPath :: string
  SourceConnectionConfigGcsPath :: string
  SpannerLocation :: string

text \<open>
  Modelled from the spec: \<^verbatim>\<open>constants.GCS_FILE_PREFIX\<close> is declared in package
  \<^verbatim>\<open>common/constants\<close>, which is not among the sources at hand. The spec calls it the
  external-storage URI scheme, and the error text of \<^verbatim>\<open>create.go\<close> line 104 spells it out.
\<close>

definition GCS_FILE_PREFIX :: string where
  "GCS_FILE_PREFIX = ''gs://''"

text \<open>
  The other constants of that package that the code names come as parameters.
\<close>

record constants =
  MYSQL :: string
  RR_READER_FILTER_FWD :: string
  RR_READER_FILTER_NONE :: string
  RR_READER_REGULAR_MODE :: string
  REVERSE_REPLICATION_READER_TEMPLATE_PATH :: string

subsection \<open>Library functions of Go used by the normalizer\<close>

text \<open>\<^verbatim>\<open>strings.HasPrefix(s, prefix)\<close>: \<^verbatim>\<open>len(s) >= len(prefix) && s[:len(prefix)] == prefix\<close>.\<close>

definition HasPrefix :: "string \<Rightarrow> string \<Rightarrow> bool" where
  "HasPrefix s prefix = (length prefix \<le> length s \<and> take (length prefix) s = prefix)"

text \<open>
  \<^verbatim>\<open>strings.Replace(s, old, new, -1)\<close> for a non-empty \<^verbatim>\<open>old\<close>: every non-overlapping
  occurrence of \<^verbatim>\<open>old\<close>, scanning from the left, becomes \<^verbatim>\<open>new\<close>. The one call site passes
  \<^verbatim>\<open>"-"\<close>; the case of an empty \<^verbatim>\<open>old\<close> (where Go inserts \<^verbatim>\<open>new\<close> around every rune)
  is not part of this model, which leaves \<^verbatim>\<open>s\<close> as it is there.
\<close>

fun Replace :: "string \<Rightarrow> string \<Rightarrow> string \<Rightarrow> string" where
  "Replace [] old new = []"
| "Replace (c # s) old new =
     (if old \<noteq> [] \<and> HasPrefix (c # s) old
      then new @ Replace (drop (length old) (c # s)) old new
      else c # Replace s old new)"

text \<open>\<^verbatim>\<open>%d\<close> of \<^verbatim>\<open>fmt\<close> for a loop index, which is never negative.\<close>

fun itoa :: "nat \<Rightarrow> string" where
  "itoa n = (if n < 10 then [''0123456789'' ! n]
             else itoa (n div 10) @ [''0123456789'' ! (n mod 10)])"

declare itoa.simps [simp del]

section \<open>The request normalizer: \<^verbatim>\<open>validateAndUpdateJobData\<close>\<close>

text \<open>
  The Go function works through a pointer: it writes fields of \<^verbatim>\<open>*request\<close> and returns
  an error. The model passes the struct in and returns the error together with the struct
  as the function leaves it, also when it returns early with an error (the writes made
  before the return stay). The body is cut at line 38, 61, 70, 81, 95 and 105 of
  \<^verbatim>\<open>create.go\<close> into blocks that run one after the other.
\<close>

text \<open>
  A block runs only if the one before it has not returned: \<open>andThen\<close> is the fall-through
  from one block to the next.
\<close>

definition andThen ::
  "error option \<times> JobData \<Rightarrow> (JobData \<Rightarrow> error option \<times> JobData) \<Rightarrow> error option \<times> JobData" where
  "andThen r f = (case r of (Some e, request) \<Rightarrow> (Some e, request) | (None, request) \<Rightarrow> f request)"

text \<open>Lines 33--38: is a staging bucket needed, and what is it called.\<close>

definition stagingBucket :: "JobData \<Rightarrow> string \<Rightarrow> JobData" where
  "stagingBucket request uuid =
     (let request = request\<lparr>IsSMTBucketRequired := True\<rparr>;
          request = request\<lparr>SmtBucketName := ''smt-rr-gcs-'' @ uuid\<rparr>
      in if HasPrefix (SessionFilePath request) GCS_FILE_PREFIX
            \<and> HasPrefix (SourceConnectionConfig request) GCS_FILE_PREFIX
            \<and> GcsDataDirectory request \<noteq> ''''
         then request\<lparr>IsSMTBucketRequired := False, SmtBucketName := ''''\<rparr>
         else request)"

text \<open>Lines 39--61: the five required fields, and the paths of the two descriptions.\<close>

definition requiredFields :: "JobData \<Rightarrow> error option \<times> JobData" where
  "requiredFields request =
     (if InstanceId request = ''''
      then (Some ''found empty InstanceId which is a required parameter'', request)
      else if DatabaseId request = ''''
      then (Some ''found empty DatabaseId which is a required parameter'', request)
      else if SessionFilePath request = ''''
      then (Some ''found empty SessionFilePath which is a required parameter'', request)
      else
        let request =
          (if \<not> HasPrefix (SessionFilePath request) GCS_FILE_PREFIX
           then request\<lparr>SessionFileGcsPath :=
                  GCS_FILE_PREFIX @ SmtBucketName request @ ''/session.json''\<rparr>
           else request\<lparr>SessionFileGcsPath := SessionFilePath request\<rparr>)
        in
        if SourceConnectionConfig request = ''''
        then (Some ''found empty SourceConnectionConfig which is a required parameter'', request)
        else
          let request =
            (if \<not> HasPrefix (SourceConnectionConfig request) GCS_FILE_PREFIX
             then request\<lparr>SourceConnectionConfigGcsPath :=
                    GCS_FILE_PREFIX @ SmtBucketName request @ ''/source-connection-config.json''\<rparr>
             else request\<lparr>SourceConnectionConfigGcsPath := SourceConnectionConfig request\<rparr>)
          in
          if SpannerProjectId request = ''''
          then (Some ''found empty SpannerProjectId which is a required parameter'', request)
          else (None, request))"

text \<open>Lines 62--70: the job name and the source type.\<close>

definition jobAndSourceType :: "constants \<Rightarrow> JobData \<Rightarrow> string \<Rightarrow> error option \<times> JobData" where
  "jobAndSourceType k request uuid =
     (let request = (if JobName request = ''''
                     then request\<lparr>JobName := ''smt-job-'' @ uuid\<rparr> else request);
          request = (if SourceType request = ''''
                     then request\<lparr>SourceType := MYSQL k\<rparr> else request)
      in
      if SourceType request \<noteq> MYSQL k
      then (Some (SourceType request @
              '' is not a valid source type for reverse replication. Only supported source type is mysql''),
            request)
      else (None, request))"

text \<open>Lines 71--81: the metadata instance and database, the data directory.\<close>

definition metadataAndDataDirectory :: "JobData \<Rightarrow> string \<Rightarrow> error option \<times> JobData" where
  "metadataAndDataDirectory request uuid =
     (let request = (if MetadataInstance request = ''''
                     then request\<lparr>MetadataInstance := InstanceId request\<rparr> else request);
          request = (if MetadataDatabase request = ''''
                     then request\<lparr>MetadataDatabase := ''smt-rr-metadata-'' @ uuid\<rparr>
                     else request)
      in
      if GcsDataDirectory request = ''''
      then (None, request\<lparr>GcsDataDirectory :=
              ''gs://smt-rr-gcs-'' @ uuid @ ''/reverse-replication/data''\<rparr>)
      else if \<not> HasPrefix (GcsDataDirectory request) GCS_FILE_PREFIX
      then (Some (''invalid gcs path for GcsDataDirectory: '' @ GcsDataDirectory request),
            request)
      else (None, request))"

text \<open>
  Lines 82--95: the change stream name, the filtration mode (\<^verbatim>\<open>utils.Contains\<close> is
  membership in the slice of the two allowed values), the timer interval, the window
  duration.
\<close>

definition streamAndMode :: "constants \<Rightarrow> JobData \<Rightarrow> string \<Rightarrow> error option \<times> JobData" where
  "streamAndMode k request uuid =
     (let request = (if ChangeStreamName request = ''''
                     then request\<lparr>ChangeStreamName := ''smt-rr-cs-'' @ uuid\<rparr>
                     else request)
      in
      andThen
        (if FiltrationMode request = ''''
         then (None, request\<lparr>FiltrationMode := RR_READER_FILTER_FWD k\<rparr>)
         else if FiltrationMode request \<notin> set [RR_READER_FILTER_FWD k, RR_READER_FILTER_NONE k]
         then (Some (''found filtrationMode '' @ FiltrationMode request @
                     '', only allowed values are ['' @ RR_READER_FILTER_FWD k @ '', '' @
                     RR_READER_FILTER_NONE k @ '']''),
               request)
         else (None, request))
        (\<lambda>request.
           let request = (if TimerInterval request < 1
                          then request\<lparr>TimerInterval := 1\<rparr> else request);
               request = (if WindowDuration request = ''''
                          then request\<lparr>WindowDuration := ''10s''\<rparr> else request)
           in (None, request)))"

text \<open>Lines 97--105: the custom sharding jar and its class come together, the jar from GCS.\<close>

definition shardingChecks :: "JobData \<Rightarrow> error option \<times> JobData" where
  "shardingChecks request =
     (if ShardingCustomJarPath request \<noteq> '''' \<and> ShardingCustomClassName request = ''''
      then (Some ''found non-empty value for ShardingCustomJarPath, but empty value for ShardingCustomClassName'',
            request)
      else if ShardingCustomJarPath request = '''' \<and> ShardingCustomClassName request \<noteq> ''''
      then (Some ''found non-empty value for ShardingCustomClassName, but empty value for ShardingCustomJarPath'',
            request)
      else if ShardingCustomJarPath request \<noteq> ''''
              \<and> \<not> HasPrefix (ShardingCustomJarPath request) GCS_FILE_PREFIX
      then (Some ''please specify a valid GCS path for ShardingCustomJarPath, starting with gs://'',
            request)
      else (None, request))"

text \<open>The checks of lines 33--105, which touch nothing but the struct.\<close>

definition localChecks :: "constants \<Rightarrow> JobData \<Rightarrow> string \<Rightarrow> error option \<times> JobData" where
  "localChecks k request uuid =
     andThen (andThen (andThen (andThen (requiredFields (stagingBucket request uuid))
                (\<lambda>request. jobAndSourceType k request uuid))
                (\<lambda>request. metadataAndDataDirectory request uuid))
                (\<lambda>request. streamAndMode k request uuid))
                shardingChecks"


section \<open>The activities\<close>

text \<open>
  The structs of package \<^verbatim>\<open>reverserepl/activity\<close>. A field whose name another struct
  has as well carries the initial of its struct: \<open>_J\<close> (\<^verbatim>\<open>CreateSmtJobEntryInput\<close>),
  \<open>_B\<close> (\<^verbatim>\<open>PrepareGcsBucketInput\<close>), \<open>_C\<close> (\<^verbatim>\<open>PrepareChangeStreamInput\<close>), \<open>_M\<close>
  (\<^verbatim>\<open>PrepareMetadataDbInput\<close>), \<open>_R\<close> (\<^verbatim>\<open>PrepareDataflowReaderInput\<close>), \<open>_W\<close>
  (\<^verbatim>\<open>PrepareDataflowWriterInput\<close>), \<open>_U\<close> (\<^verbatim>\<open>UpdateSmtJobEntryInput\<close>), \<open>_T\<close>
  (\<^verbatim>\<open>DataflowTuningConfig\<close>).
\<close>

record PrepareChangeStreamInput =
  SmtJobId_C :: string
  ChangeStreamName_C :: string
  DbURI_C :: string

record PrepareChangeStreamOutput =
  Exists :: bool
  ExistsWithIncorrectOptions :: bool
  Created :: bool

record PrepareDataflowReaderInput =
  SmtJobId_R :: string
  ChangeStreamName_R :: string
  InstanceId_R :: string
  DatabaseId_R :: string
  SpannerProjectId_R :: string
  SessionFilePath_R :: string
  SourceShardsFilePath_R :: string
  MetadataInstance_R :: string
  MetadataDatabase_R :: string
  GcsOutputDirectory_R :: string
  StartTimestamp_R :: string
  EndTimestamp_R :: string
  WindowDuration_R :: string
  FiltrationMode_R :: string
  MetadataTableSuffix_R :: string
  SkipDirectoryName_R :: string
  ShardingCustomJarPath_R :: string
  ShardingCustomClassName_R :: string
  TuningCfg_R :: string
  SpannerLocation_R :: string

record PrepareDataflowReaderOutput =
  JobId :: string

text \<open>
  The five activities whose methods are not among the sources at hand; \<^verbatim>\<open>create.go\<close>
  fills their inputs, so the fields are the ones it names.
\<close>

record CreateSmtJobEntryInput =
  SmtJobId_J :: string
  JobName_J :: string
  SpannerProjectId_J :: string
  InstanceId_J :: string
  DatabaseId_J :: string
  JobData_J :: string

record PrepareGcsBucketInput =
  SmtJobId_B :: string
  SmtBucketName_B :: string
  SpannerProjectId_B :: string
  SpannerLocation_B :: string
  SessionFilePath_B :: string
  SourceConnectionConfig_B :: string
  IsSMTBucketRequired_B :: bool

record PrepareMetadataDbInput =
  SmtJobId_M :: string
  DbURI_M :: string

record PrepareDataflowWriterInput =
  SmtJobId_W :: string
  SourceShardsFilePath_W :: string
  SessionFilePath_W :: string
  SourceType_W :: string
  SourceDbTimezoneOffset_W :: string
  TimerInterval_W :: int
  StartTimestamp_W :: string
  WindowDuration_W :: string
  GCSInputDirectoryPath_W :: string
  SpannerProjectId_W :: string
  MetadataInstance_W :: string
  MetadataDatabase_W :: string
  MetadataTableSuffix_W :: string
  TuningCfg_W :: string
  SpannerLocation_W :: string

record UpdateSmtJobEntryInput =
  SmtJobId_U :: string
  State_U :: string

datatype otherActivity =
    CreateSmtJobEntry CreateSmtJobEntryInput
  | PrepareGcsBucket PrepareGcsBucketInput
  | PrepareMetadataDb PrepareMetadataDbInput
  | PrepareDataflowWriter PrepareDataflowWriterInput
  | UpdateSmtJobEntry UpdateSmtJobEntryInput

text \<open>
  \<^verbatim>\<open>DataflowTuningConfig\<close> is declared in package \<^verbatim>\<open>accessors/dataflow\<close>, in a file that is
  not among the sources at hand. These are the fields \<^verbatim>\<open>validateUpdateReaderTuningCfg\<close>
  touches. \<^verbatim>\<open>AdditionalUserLabels\<close> is assigned by key, so it is a Go map, and
  \<^verbatim>\<open>AdditionalExperiments\<close> is compared with \<^verbatim>\<open>nil\<close> and appended to, so it is a slice: both
  can be \<^verbatim>\<open>nil\<close>, which is \<open>None\<close> here.
\<close>

record DataflowTuningConfig =
  ProjectId :: string
  JobName_T :: string
  Location :: string
  MaxWorkers :: int
  NumWorkers :: int
  MachineType :: string
  AdditionalUserLabels :: "(string \<rightharpoonup> string) option"
  GcsTemplatePath :: string
  AdditionalExperiments :: "string list option"
  EnableStreamingEngine :: bool

section \<open>The world outside\<close>

text \<open>
  Every call that leaves the process is written to a history, and what such a call returns
  is a function of its arguments and of the history so far, given by the environment.
  The methods of the five activities above are calls of this kind.
\<close>

datatype event =
    Ev_GetSpannerLeaderLocation string
  | Ev_CheckOrCreateMetadataDb string string
  | Ev_GetOrCreateClient string
  | Ev_CheckIfChangeStreamExists string string
  | Ev_ValidateChangeStreamOptions string string
  | Ev_CreateChangeStreamSMTResource string string string
  | Ev_UnmarshalDataflowTuningConfig string
  | Ev_CreateDataflowSMTResource string
  | Ev_Transaction otherActivity
  | Ev_Compensation otherActivity

text \<open>
  \<open>'r\<close> is the type of a Dataflow launch request. \<^verbatim>\<open>utils.GenerateHashStr\<close> draws a random
  string and \<^verbatim>\<open>helpers.GetSpannerUri\<close>, \<^verbatim>\<open>json.Marshal\<close> and
  \<^verbatim>\<open>dataflowutils.GetDataflowLaunchRequest\<close> compute a value; they leave no event.
\<close>

record 'r env =
  pkgConstants :: constants
  GenerateHashStr :: "event list \<Rightarrow> string"
  GetSpannerLeaderLocation :: "string \<Rightarrow> event list \<Rightarrow> string \<times> error option"
  GetSpannerUri :: "string \<Rightarrow> string \<Rightarrow> string"
  GetOrCreateClient :: "string \<Rightarrow> event list \<Rightarrow> error option"
  json_Marshal :: "JobData \<Rightarrow> string \<times> error option"
  CheckIfChangeStreamExists :: "string \<Rightarrow> string \<Rightarrow> event list \<Rightarrow> bool \<times> error option"
  ValidateChangeStreamOptions :: "string \<Rightarrow> string \<Rightarrow> event list \<Rightarrow> error option"
  CreateChangeStreamSMTResource :: "string \<Rightarrow> string \<Rightarrow> string \<Rightarrow> event list \<Rightarrow> error option"
  UnmarshalDataflowTuningConfig :: "string \<Rightarrow> event list \<Rightarrow> DataflowTuningConfig \<times> error option"
  GetDataflowLaunchRequest :: "(string \<rightharpoonup> string) \<Rightarrow> DataflowTuningConfig \<Rightarrow> 'r \<times> error option"
  CreateDataflowSMTResource :: "string \<Rightarrow> 'r \<Rightarrow> event list \<Rightarrow> string \<times> error option"
  otherTransaction :: "otherActivity \<Rightarrow> event list \<Rightarrow> error option"
  otherCompensation :: "otherActivity \<Rightarrow> event list \<Rightarrow> error option"

text \<open>
  The state of a run: the history, the \<^verbatim>\<open>JobData\<close> variables that exist (a pointer to
  one is its index in \<open>store\<close>), and the two output structs that \<^verbatim>\<open>CreateWorkflow\<close>
  allocates for the activities modelled in full.
\<close>

record machine =
  history :: "event list"
  store :: "JobData list"
  csOutput :: PrepareChangeStreamOutput
  rdOutput :: PrepareDataflowReaderOutput

text \<open>A Go panic ends the call without a return value.\<close>

datatype panic = AssignmentToEntryInNilMap


section \<open>\<^verbatim>\<open>validateAndUpdateJobData\<close>, whole\<close>

text \<open>
  After the checks of lines 33--105: line 107 rewrites the change stream name, line 109
  asks for the leader location of the instance and stores what comes back, and line 110
  returns the error of that call.
\<close>

definition validateAndUpdateJobData ::
  "'r env \<Rightarrow> JobData \<Rightarrow> string \<Rightarrow> event list \<Rightarrow> error option \<times> JobData \<times> event list" where
  "validateAndUpdateJobData env request uuid h =
     (case localChecks (pkgConstants env) request uuid of
        (Some e, request) \<Rightarrow> (Some e, request, h)
      | (None, request) \<Rightarrow>
          let request = request\<lparr>ChangeStreamName := Replace (ChangeStreamName request) ''-'' ''_''\<rparr>;
              uri = ''projects/'' @ SpannerProjectId request @ ''/instances/'' @ InstanceId request;
              (location, err) = GetSpannerLeaderLocation env uri h;
              request = request\<lparr>SpannerLocation := location\<rparr>
          in (err, request, h @ [Ev_GetSpannerLeaderLocation uri]))"

text \<open>
  The call \<^verbatim>\<open>validateAndUpdateJobData(ctx, &request, uuid)\<close>: the struct read and written is
  the one at the address \<open>p\<close>. The address of a variable is never dangling:
  \<open>p < length (store m)\<close> at the one call, in \<^verbatim>\<open>CreateWorkflow\<close>.
\<close>

definition validateAndUpdateJobData_at ::
  "'r env \<Rightarrow> nat \<Rightarrow> string \<Rightarrow> machine \<Rightarrow> error option \<times> machine" where
  "validateAndUpdateJobData_at env p uuid m =
     (let (err, request, h) = validateAndUpdateJobData env (store m ! p) uuid (history m)
      in (err, m\<lparr>store := (store m)[p := request], history := h\<rparr>))"

section \<open>\<^verbatim>\<open>PrepareChangeStream\<close>\<close>

text \<open>
  \<^verbatim>\<open>p.Input\<close> and \<^verbatim>\<open>p.Output\<close> are pointers that \<^verbatim>\<open>CreateWorkflow\<close> sets when it builds the
  activity; the input is passed as a value and the output struct is \<open>csOutput\<close> of the
  state.
\<close>

definition PrepareChangeStream_Transaction ::
  "'r env \<Rightarrow> PrepareChangeStreamInput \<Rightarrow> machine \<Rightarrow> (panic + error option) \<times> machine" where
  "PrepareChangeStream_Transaction env input m =
     (let (csExists, err) =
            CheckIfChangeStreamExists env (ChangeStreamName_C input) (DbURI_C input) (history m);
          m = m\<lparr>history := history m @
                 [Ev_CheckIfChangeStreamExists (ChangeStreamName_C input) (DbURI_C input)]\<rparr>
      in
      case err of
        Some e \<Rightarrow> (Inr (Some e), m)
      | None \<Rightarrow>
          if csExists then
            let err = ValidateChangeStreamOptions env (ChangeStreamName_C input) (DbURI_C input)
                        (history m);
                m = m\<lparr>history := history m @
                       [Ev_ValidateChangeStreamOptions (ChangeStreamName_C input) (DbURI_C input)]\<rparr>
            in
            case err of
              Some e \<Rightarrow>
                (Inr (Some e), m\<lparr>csOutput := (csOutput m)\<lparr>ExistsWithIncorrectOptions := True\<rparr>\<rparr>)
            | None \<Rightarrow> (Inr None, m\<lparr>csOutput := (csOutput m)\<lparr>Exists := True\<rparr>\<rparr>)
          else
            let err = CreateChangeStreamSMTResource env (SmtJobId_C input)
                        (ChangeStreamName_C input) (DbURI_C input) (history m);
                m = m\<lparr>history := history m @
                       [Ev_CreateChangeStreamSMTResource (SmtJobId_C input)
                          (ChangeStreamName_C input) (DbURI_C input)]\<rparr>
            in
            case err of
              Some e \<Rightarrow> (Inr (Some (''could not create changestream resource: '' @ e)), m)
            | None \<Rightarrow> (Inr None, m\<lparr>csOutput := (csOutput m)\<lparr>Created := True\<rparr>\<rparr>))"

definition PrepareChangeStream_Compensation ::
  "'r env \<Rightarrow> PrepareChangeStreamInput \<Rightarrow> machine \<Rightarrow> (panic + error option) \<times> machine" where
  "PrepareChangeStream_Compensation env input m = (Inr None, m)"

section \<open>\<^verbatim>\<open>PrepareDataflowReader\<close>\<close>

text \<open>
  \<^verbatim>\<open>validateUpdateReaderTuningCfg\<close> works through a pointer to the config and returns
  nothing; the model returns the config as the function leaves it. \<open>hash\<close> is what
  \<^verbatim>\<open>utils.GenerateHashStr()\<close> gives on line 122. Line 136 assigns to a key of
  \<^verbatim>\<open>cfg.AdditionalUserLabels\<close> with no test before it: on a \<^verbatim>\<open>nil\<close> map Go panics there.
\<close>

definition validateUpdateReaderTuningCfg ::
  "constants \<Rightarrow> string \<Rightarrow> DataflowTuningConfig \<Rightarrow> string \<Rightarrow> string \<Rightarrow> string
     \<Rightarrow> panic + DataflowTuningConfig" where
  "validateUpdateReaderTuningCfg k hash cfg spannerProjectId spannerLocation smtJobId =
     (let cfg = (if ProjectId cfg = '''' then cfg\<lparr>ProjectId := spannerProjectId\<rparr> else cfg);
          cfg = (if JobName_T cfg = ''''
                 then cfg\<lparr>JobName_T := ''smt-reverse-replication-reader-'' @ hash\<rparr> else cfg);
          cfg = (if Location cfg = '''' then cfg\<lparr>Location := spannerLocation\<rparr> else cfg);
          cfg = (if MaxWorkers cfg = 0 then cfg\<lparr>MaxWorkers := 50\<rparr> else cfg);
          cfg = (if NumWorkers cfg = 0 then cfg\<lparr>NumWorkers := 5\<rparr> else cfg);
          cfg = (if MachineType cfg = '''' then cfg\<lparr>MachineType := ''n1-standard-2''\<rparr> else cfg)
      in
      case AdditionalUserLabels cfg of
        None \<Rightarrow> Inl AssignmentToEntryInNilMap
      | Some labels \<Rightarrow>
          let cfg = cfg\<lparr>AdditionalUserLabels :=
                      Some (labels(''smt-reverse-replication-reader'' \<mapsto> smtJobId))\<rparr>;
              cfg = (if GcsTemplatePath cfg = ''''
                     then cfg\<lparr>GcsTemplatePath := REVERSE_REPLICATION_READER_TEMPLATE_PATH k\<rparr>
                     else cfg);
              cfg = (case AdditionalExperiments cfg of
                       None \<Rightarrow> cfg\<lparr>AdditionalExperiments := Some [''use_runner_v2'']\<rparr>
                     | Some xs \<Rightarrow>
                         if ''use_runner_v2'' \<notin> set xs
                         then cfg\<lparr>AdditionalExperiments := Some (xs @ [''use_runner_v2''])\<rparr>
                         else cfg)
          in Inr (cfg\<lparr>EnableStreamingEngine := True\<rparr>))"

text \<open>Lines 75--98 of \<^verbatim>\<open>Transaction\<close>: the parameters of the launch.\<close>

definition readerParams :: "constants \<Rightarrow> PrepareDataflowReaderInput \<Rightarrow> (string \<rightharpoonup> string)" where
  "readerParams k input =
     (let params = [
            ''changeStreamName'' \<mapsto> ChangeStreamName_R input,
            ''instanceId'' \<mapsto> InstanceId_R input,
            ''databaseId'' \<mapsto> DatabaseId_R input,
            ''spannerProjectId'' \<mapsto> SpannerProjectId_R input,
            ''metadataInstance'' \<mapsto> MetadataInstance_R input,
            ''metadataDatabase'' \<mapsto> MetadataDatabase_R input,
            ''gcsOutputDirectory'' \<mapsto> GcsOutputDirectory_R input,
            ''sessionFilePath'' \<mapsto> SessionFilePath_R input,
            ''sourceShardsFilePath'' \<mapsto> SourceShardsFilePath_R input,
            ''endTimestamp'' \<mapsto> EndTimestamp_R input,
            ''windowDuration'' \<mapsto> WindowDuration_R input,
            ''filtrationMode'' \<mapsto> FiltrationMode_R input,
            ''metadataTableSuffix'' \<mapsto> MetadataTableSuffix_R input,
            ''skipDirectoryName'' \<mapsto> SkipDirectoryName_R input,
            ''startTimestamp'' \<mapsto> StartTimestamp_R input,
            ''runIdentifier'' \<mapsto> SmtJobId_R input,
            ''runMode'' \<mapsto> RR_READER_REGULAR_MODE k]
      in if ShardingCustomJarPath_R input \<noteq> ''''
         then params(''shardingCustomJarPath'' \<mapsto> ShardingCustomJarPath_R input,
                     ''shardingCustomClassName'' \<mapsto> ShardingCustomClassName_R input)
         else params)"

text \<open>
  \<^verbatim>\<open>Transaction\<close>. The call on line 67 passes a storage accessor that the
  \<^verbatim>\<open>UnmarshalDataflowTuningConfig\<close> of the sources at hand does not take; either way it reads
  the file named by \<^verbatim>\<open>input.TuningCfg\<close> and decodes it. The log lines are left out.
\<close>

definition PrepareDataflowReader_Transaction ::
  "'r env \<Rightarrow> PrepareDataflowReaderInput \<Rightarrow> machine \<Rightarrow> (panic + error option) \<times> machine" where
  "PrepareDataflowReader_Transaction env input m =
     (let (readerTuningCfg, err) = UnmarshalDataflowTuningConfig env (TuningCfg_R input) (history m);
          m = m\<lparr>history := history m @ [Ev_UnmarshalDataflowTuningConfig (TuningCfg_R input)]\<rparr>
      in
      case err of
        Some e \<Rightarrow>
          (Inr (Some (''error reading reader tuning config '' @ TuningCfg_R input @ '': '' @ e)), m)
      | None \<Rightarrow>
          (case validateUpdateReaderTuningCfg (pkgConstants env) (GenerateHashStr env (history m))
                  readerTuningCfg (SpannerProjectId_R input) (SpannerLocation_R input)
                  (SmtJobId_R input) of
             Inl pnc \<Rightarrow> (Inl pnc, m)
           | Inr readerTuningCfg \<Rightarrow>
               let params = readerParams (pkgConstants env) input;
                   (dfLaunchReq, err) = GetDataflowLaunchRequest env params readerTuningCfg
               in
               case err of
                 Some e \<Rightarrow> (Inr (Some e), m)
               | None \<Rightarrow>
                   let (dfJobId, err) =
                         CreateDataflowSMTResource env (SmtJobId_R input) dfLaunchReq (history m);
                       m = m\<lparr>history := history m @
                              [Ev_CreateDataflowSMTResource (SmtJobId_R input)]\<rparr>
                   in
                   case err of
                     Some e \<Rightarrow> (Inr (Some e), m)
                   | None \<Rightarrow> (Inr None, m\<lparr>rdOutput := (rdOutput m)\<lparr>JobId := dfJobId\<rparr>\<rparr>)))"

definition PrepareDataflowReader_Compensation ::
  "'r env \<Rightarrow> PrepareDataflowReaderInput \<Rightarrow> machine \<Rightarrow> (panic + error option) \<times> machine" where
  "PrepareDataflowReader_Compensation env input m = (Inr None, m)"

section \<open>The orchestrator: \<^verbatim>\<open>CreateWorkflow\<close>\<close>

text \<open>
  \<^verbatim>\<open>activity.Activity\<close> is the interface with the methods \<^verbatim>\<open>Transaction\<close> and
  \<^verbatim>\<open>Compensation\<close>. A value of it is the pair of its methods, each a step on the state
  \<open>'s\<close> that it can reach, which returns an error, returns \<^verbatim>\<open>nil\<close> or panics.
\<close>

record 's Activity =
  Transaction :: "'s \<Rightarrow> (panic + error option) \<times> 's"
  Compensation :: "'s \<Rightarrow> (panic + error option) \<times> 's"

text \<open>
  What the orchestrator called, in the order of the calls. This list is not a variable of
  the Go code; it is kept beside the state so that the calls can be counted.
\<close>

datatype invocation = TransactionCalled nat | CompensationCalled nat

text \<open>
  Lines 232--242: the loop over the activities, from index \<open>i\<close> on. The compensating
  loop that lines 234--239 describe is a comment; the code that runs returns at once.
\<close>

fun runActivities ::
  "nat \<Rightarrow> 's Activity list \<Rightarrow> 's \<Rightarrow> invocation list
     \<Rightarrow> (panic + error option) \<times> 's \<times> invocation list" where
  "runActivities i [] s tr = (Inr None, s, tr)"
| "runActivities i (activity # activities) s tr =
     (case Transaction activity s of
        (Inl pnc, s') \<Rightarrow> (Inl pnc, s', tr @ [TransactionCalled i])
      | (Inr (Some err), s') \<Rightarrow>
          (Inr (Some (''error executing activity #'' @ itoa i @ '': '' @ err)), s',
           tr @ [TransactionCalled i])
      | (Inr None, s') \<Rightarrow> runActivities (Suc i) activities s' (tr @ [TransactionCalled i]))"

text \<open>The three kinds of activity value that \<^verbatim>\<open>CreateWorkflow\<close> builds.\<close>

definition PrepareChangeStream :: "'r env \<Rightarrow> PrepareChangeStreamInput \<Rightarrow> machine Activity" where
  "PrepareChangeStream env input =
     \<lparr>Transaction = PrepareChangeStream_Transaction env input,
      Compensation = PrepareChangeStream_Compensation env input\<rparr>"

definition PrepareDataflowReader :: "'r env \<Rightarrow> PrepareDataflowReaderInput \<Rightarrow> machine Activity" where
  "PrepareDataflowReader env input =
     \<lparr>Transaction = PrepareDataflowReader_Transaction env input,
      Compensation = PrepareDataflowReader_Compensation env input\<rparr>"

definition other :: "'r env \<Rightarrow> otherActivity \<Rightarrow> machine Activity" where
  "other env a =
     \<lparr>Transaction = (\<lambda>m. (Inr (otherTransaction env a (history m)),
                           m\<lparr>history := history m @ [Ev_Transaction a]\<rparr>)),
      Compensation = (\<lambda>m. (Inr (otherCompensation env a (history m)),
                            m\<lparr>history := history m @ [Ev_Compensation a]\<rparr>))\<rparr>"

text \<open>Lines 143--231: the list of the seven activities, from the normalized request.\<close>

definition activitiesOf :: "'r env \<Rightarrow> JobData \<Rightarrow> string \<Rightarrow> string \<Rightarrow> machine Activity list" where
  "activitiesOf env request smtJobId jobData =
     [other env (CreateSmtJobEntry
        \<lparr>SmtJobId_J = smtJobId,
         JobName_J = JobName request,
         SpannerProjectId_J = SpannerProjectId request,
         InstanceId_J = InstanceId request,
         DatabaseId_J = DatabaseId request,
         JobData_J = jobData\<rparr>),
      other env (PrepareGcsBucket
        \<lparr>SmtJobId_B = smtJobId,
         SmtBucketName_B = SmtBucketName request,
         SpannerProjectId_B = SpannerProjectId request,
         SpannerLocation_B = SpannerLocation request,
         SessionFilePath_B = SessionFilePath request,
         SourceConnectionConfig_B = SourceConnectionConfig request,
         IsSMTBucketRequired_B = IsSMTBucketRequired request\<rparr>),
      PrepareChangeStream env
        \<lparr>SmtJobId_C = smtJobId,
         ChangeStreamName_C = ChangeStreamName request,
         DbURI_C = ''projects/'' @ SpannerProjectId request @ ''/instances/'' @
                   InstanceId request @ ''/databases/'' @ DatabaseId request\<rparr>,
      other env (PrepareMetadataDb
        \<lparr>SmtJobId_M = smtJobId,
         DbURI_M = ''projects/'' @ SpannerProjectId request @ ''/instances/'' @
                   MetadataInstance request @ ''/databases/'' @ MetadataDatabase request\<rparr>),
      PrepareDataflowReader env
        \<lparr>SmtJobId_R = smtJobId,
         ChangeStreamName_R = ChangeStreamName request,
         InstanceId_R = InstanceId request,
         DatabaseId_R = DatabaseId request,
         SpannerProjectId_R = SpannerProjectId request,
         SessionFilePath_R = SessionFileGcsPath request,
         SourceShardsFilePath_R = SourceConnectionConfigGcsPath request,
         MetadataInstance_R = MetadataInstance request,
         MetadataDatabase_R = MetadataDatabase request,
         GcsOutputDirectory_R = GcsDataDirectory request,
         StartTimestamp_R = StartTimestamp request,
         EndTimestamp_R = EndTimestamp request,
         WindowDuration_R = WindowDuration request,
         FiltrationMode_R = FiltrationMode request,
         MetadataTableSuffix_R = MetadataTableSuffix request,
         SkipDirectoryName_R = SkipDirectoryName request,
         ShardingCustomJarPath_R = ShardingCustomJarPath request,
         ShardingCustomClassName_R = ShardingCustomClassName request,
         TuningCfg_R = ReaderCfg request,
         SpannerLocation_R = SpannerLocation request\<rparr>,
      other env (PrepareDataflowWriter
        \<lparr>SmtJobId_W = smtJobId,
         SourceShardsFilePath_W = SourceConnectionConfigGcsPath request,
         SessionFilePath_W = SessionFileGcsPath request,
         SourceType_W = SourceType request,
         SourceDbTimezoneOffset_W = SourceDbTimezoneOffset request,
         TimerInterval_W = TimerInterval request,
         StartTimestamp_W = StartTimestamp request,
         WindowDuration_W = WindowDuration request,
         GCSInputDirectoryPath_W = GcsDataDirectory request,
         SpannerProjectId_W = SpannerProjectId request,
         MetadataInstance_W = MetadataInstance request,
         MetadataDatabase_W = MetadataDatabase request,
         MetadataTableSuffix_W = MetadataTableSuffix request,
         TuningCfg_W = WriterCfg request,
         SpannerLocation_W = SpannerLocation request\<rparr>),
      other env (UpdateSmtJobEntry
        \<lparr>SmtJobId_U = smtJobId,
         State_U = ''RUNNING''\<rparr>)]"

text \<open>
  \<^verbatim>\<open>CreateWorkflow(ctx, request JobData)\<close>. The parameter is a variable of the callee: the
  call allocates it (at the next free address, \<open>length (store m)\<close>) and copies the
  argument into it; \<^verbatim>\<open>&request\<close> on line 122 is that address. The logger calls are left
  out. Beside the result and the state it returns the calls the loop has made.
\<close>

definition CreateWorkflow ::
  "'r env \<Rightarrow> JobData \<Rightarrow> machine \<Rightarrow> (panic + error option) \<times> machine \<times> invocation list" where
  "CreateWorkflow env arg m =
     (let request = length (store m);
          m = m\<lparr>store := store m @ [arg]\<rparr>;
          uuid = GenerateHashStr env (history m);
          (err, m) = validateAndUpdateJobData_at env request uuid m
      in
      case err of
        Some e \<Rightarrow> (Inr (Some (''error in validateCreateRequest: '' @ e)), m, [])
      | None \<Rightarrow>
          let m = m\<lparr>history := history m @
                     [Ev_CheckOrCreateMetadataDb (SpannerProjectId (store m ! request))
                        (InstanceId (store m ! request))]\<rparr>;
              smtMetadataDBURI = GetSpannerUri env (SpannerProjectId (store m ! request))
                                   (InstanceId (store m ! request));
              err = GetOrCreateClient env smtMetadataDBURI (history m);
              m = m\<lparr>history := history m @ [Ev_GetOrCreateClient smtMetadataDBURI]\<rparr>
          in
          case err of
            Some e \<Rightarrow> (Inr (Some (''error starting dao client: '' @ e)), m, [])
          | None \<Rightarrow>
              let smtJobId = ''smt-job-'' @ uuid;
                  (b, err) = json_Marshal env (store m ! request)
              in
              case err of
                Some e \<Rightarrow> (Inr (Some (''error converting job data to string: '' @ e)), m, [])
              | None \<Rightarrow>
                  let jobData = b;
                      m = m\<lparr>csOutput := \<lparr>Exists = False, ExistsWithIncorrectOptions = False,
                                          Created = False\<rparr>,
                            rdOutput := \<lparr>JobId = ''''\<rparr>\<rparr>;
                      activities = activitiesOf env (store m ! request) smtJobId jobData
                  in runActivities 0 activities m [])"


section \<open>Names used in the statements, and concrete inputs\<close>

text \<open>
  The required fields of a request that are empty, by name, in the order in which lines
  39--61 test them.
\<close>

definition missingRequired :: "JobData \<Rightarrow> string list" where
  "missingRequired request =
     map fst (filter (\<lambda>(name, v). v = '''')
       [(''InstanceId'', InstanceId request),
        (''DatabaseId'', DatabaseId request),
        (''SessionFilePath'', SessionFilePath request),
        (''SourceConnectionConfig'', SourceConnectionConfig request),
        (''SpannerProjectId'', SpannerProjectId request)])"

text \<open>
  A value of the form \<^verbatim>\<open><prefix>-<run-id>\<close>: it ends with a hyphen and the run
  identifier.
\<close>

definition hasRunIdSuffix :: "string \<Rightarrow> string \<Rightarrow> bool" where
  "hasRunIdSuffix v uuid =
     (length (''-'' @ uuid) \<le> length v \<and> drop (length v - length (''-'' @ uuid)) v = ''-'' @ uuid)"

text \<open>The keys of the map literal on lines 75--93.\<close>

definition readerFixedKeys :: "string list" where
  "readerFixedKeys =
     [''changeStreamName'', ''instanceId'', ''databaseId'', ''spannerProjectId'',
      ''metadataInstance'', ''metadataDatabase'', ''gcsOutputDirectory'', ''sessionFilePath'',
      ''sourceShardsFilePath'', ''endTimestamp'', ''windowDuration'', ''filtrationMode'',
      ''metadataTableSuffix'', ''skipDirectoryName'', ''startTimestamp'', ''runIdentifier'',
      ''runMode'']"

text \<open>
  An activity for trying the loop: its methods write their name into a journal, and its
  \<^verbatim>\<open>Transaction\<close> fails if \<open>ok\<close> is false. Of the seven activities the fourth fails,
  which is the one at index 3 of the list.
\<close>

definition journalled :: "string \<Rightarrow> bool \<Rightarrow> string list Activity" where
  "journalled name ok =
     \<lparr>Transaction = (\<lambda>s. (Inr (if ok then None else Some (name @ '' failed'')),
                           s @ [''Transaction '' @ name])),
      Compensation = (\<lambda>s. (Inr None, s @ [''Compensation '' @ name]))\<rparr>"


definition threeActivities :: "string list Activity list" where
  "threeActivities = [journalled ''a0'' True, journalled ''a1'' True, journalled ''a2'' False]"

text \<open>The zero value of the tuning config, which decoding \<^verbatim>\<open>{}\<close> gives.\<close>

definition zeroTuningConfig :: DataflowTuningConfig where
  "zeroTuningConfig =
     \<lparr>ProjectId = '''', JobName_T = '''', Location = '''', MaxWorkers = 0, NumWorkers = 0,
      MachineType = '''', AdditionalUserLabels = None, GcsTemplatePath = '''',
      AdditionalExperiments = None, EnableStreamingEngine = False\<rparr>"

text \<open>
  An environment in which every call succeeds: no change stream exists yet, the tuning
  file holds an empty label map, a launch request is the pair of its parameters and its
  config.
\<close>

definition k0 :: constants where
  "k0 = \<lparr>MYSQL = ''mysql'', RR_READER_FILTER_FWD = ''forward_migration'',
         RR_READER_FILTER_NONE = ''none'', RR_READER_REGULAR_MODE = ''regular'',
         REVERSE_REPLICATION_READER_TEMPLATE_PATH = ''gs://templates/reader''\<rparr>"

definition env0 :: "((string \<rightharpoonup> string) \<times> DataflowTuningConfig) env" where
  "env0 =
     \<lparr>pkgConstants = k0,
      GenerateHashStr = (\<lambda>h. ''abc''),
      GetSpannerLeaderLocation = (\<lambda>uri h. (''us-central1'', None)),
      GetSpannerUri = (\<lambda>project instance. ''projects/'' @ project @ ''/instances/'' @ instance),
      GetOrCreateClient = (\<lambda>uri h. None),
      json_Marshal = (\<lambda>request. (''{}'', None)),
      CheckIfChangeStreamExists = (\<lambda>name uri h. (False, None)),
      ValidateChangeStreamOptions = (\<lambda>name uri h. None),
      CreateChangeStreamSMTResource = (\<lambda>job name uri h. None),
      UnmarshalDataflowTuningConfig =
        (\<lambda>path h. (zeroTuningConfig\<lparr>AdditionalUserLabels := Some Map.empty\<rparr>, None)),
      GetDataflowLaunchRequest = (\<lambda>params cfg. ((params, cfg), None)),
      CreateDataflowSMTResource = (\<lambda>job req h. (''dataflow-1'', None)),
      otherTransaction = (\<lambda>a h. None),
      otherCompensation = (\<lambda>a h. None)\<rparr>"

text \<open>A request with the five required fields and nothing else.\<close>

definition request0 :: JobData where
  "request0 =
     \<lparr>JobName = '''', InstanceId = ''inst'', DatabaseId = ''db'', SpannerProjectId = ''proj'',
      SessionFilePath = ''session.json'', SourceConnectionConfig = ''source.json'',
      SourceType = '''', MetadataInstance = '''', MetadataDatabase = '''',
      GcsDataDirectory = '''', ChangeStreamName = '''', FiltrationMode = '''',
      TimerInterval = 0, WindowDuration = '''', ShardingCustomJarPath = '''',
      ShardingCustomClassName = '''', StartTimestamp = '''', EndTimestamp = '''',
      MetadataTableSuffix = '''', SkipDirectoryName = '''', SourceDbTimezoneOffset = '''',
      ReaderCfg = '''', WriterCfg = '''', IsSMTBucketRequired = False, SmtBucketName = '''',
      SessionFileGcsPath = '''', SourceConnectionConfigGcsPath = '''', SpannerLocation = ''''\<rparr>"

text \<open>A state in which the caller holds \<open>request0\<close> in its variable, at address 0.\<close>

definition m0 :: machine where
  "m0 = \<lparr>history = [], store = [request0],
         csOutput = \<lparr>Exists = False, ExistsWithIncorrectOptions = False, Created = False\<rparr>,
         rdOutput = \<lparr>JobId = ''''\<rparr>\<rparr>"


text \<open>
  The input of \<^verbatim>\<open>PrepareChangeStream\<close> that \<^verbatim>\<open>CreateWorkflow\<close> builds from \<open>request0\<close>, and
  two environments in which the change stream is already there: with options that do not
  validate, and with options that do.
\<close>

definition csInput0 :: PrepareChangeStreamInput where
  "csInput0 = \<lparr>SmtJobId_C = ''smt-job-abc'', ChangeStreamName_C = ''smt_rr_cs_abc'',
               DbURI_C = ''projects/proj/instances/inst/databases/db''\<rparr>"

definition envWrongOptions :: "((string \<rightharpoonup> string) \<times> DataflowTuningConfig) env" where
  "envWrongOptions =
     env0\<lparr>CheckIfChangeStreamExists := (\<lambda>name uri h. (True, None)),
          ValidateChangeStreamOptions := (\<lambda>name uri h. Some ''wrong options'')\<rparr>"

definition envRightOptions :: "((string \<rightharpoonup> string) \<times> DataflowTuningConfig) env" where
  "envRightOptions = env0\<lparr>CheckIfChangeStreamExists := (\<lambda>name uri h. (True, None))\<rparr>"

text \<open>The input of \<^verbatim>\<open>PrepareDataflowReader\<close> for \<open>request0\<close>: no custom sharding jar.\<close>

definition readerInput0 :: PrepareDataflowReaderInput where
  "readerInput0 =
     \<lparr>SmtJobId_R = ''smt-job-abc'', ChangeStreamName_R = ''smt_rr_cs_abc'',
      InstanceId_R = ''inst'', DatabaseId_R = ''db'', SpannerProjectId_R = ''proj'',
      SessionFilePath_R = ''gs://smt-rr-gcs-abc/session.json'',
      SourceShardsFilePath_R = ''gs://smt-rr-gcs-abc/source-connection-config.json'',
      MetadataInstance_R = ''inst'', MetadataDatabase_R = ''smt-rr-metadata-abc'',
      GcsOutputDirectory_R = ''gs://smt-rr-gcs-abc/reverse-replication/data'',
      StartTimestamp_R = '''', EndTimestamp_R = '''', WindowDuration_R = ''10s'',
      FiltrationMode_R = ''forward_migration'', MetadataTableSuffix_R = '''',
      SkipDirectoryName_R = '''', ShardingCustomJarPath_R = '''',
      ShardingCustomClassName_R = '''', TuningCfg_R = '''',
      SpannerLocation_R = ''us-central1''\<rparr>"


text \<open>
  An environment whose launcher answers with what it finds in the parameters of the
  request under the key \<^verbatim>\<open>shardingCustomJarPath\<close>, and an input with a custom sharding jar.
\<close>

definition envRecording :: "((string \<rightharpoonup> string) \<times> DataflowTuningConfig) env" where
  "envRecording =
     env0\<lparr>CreateDataflowSMTResource :=
            (\<lambda>job req h. (case fst req ''shardingCustomJarPath'' of
                             None \<Rightarrow> ''launched without the key''
                           | Some v \<Rightarrow> ''launched with '' @ v, None))\<rparr>"

definition readerInputJar :: PrepareDataflowReaderInput where
  "readerInputJar =
     readerInput0\<lparr>ShardingCustomJarPath_R := ''gs://b/shard.jar'',
                  ShardingCustomClassName_R := ''com.example.Sharder''\<rparr>"

section \<open>Lemmas\<close>

subsection \<open>Fall-through\<close>

lemma andThen_None:
  "(andThen x f = (None, r')) = (\<exists>q. x = (None, q) \<and> f q = (None, r'))"
  by (cases x) (auto simp: andThen_def split: option.splits)

lemma andThen_error: "fst x = Some e \<Longrightarrow> andThen x f = x"
  by (cases x) (simp add: andThen_def)

lemma andThen_field:
  assumes "\<And>q. g (snd (f q)) = g q"
  shows "g (snd (andThen x f)) = g (snd x)"
  using assms by (cases x) (auto simp: andThen_def split: option.splits)

subsection \<open>The blocks of the normalizer in closed form\<close>

lemma stagingBucket_eq:
  "stagingBucket r u =
     r\<lparr>IsSMTBucketRequired :=
          \<not> (HasPrefix (SessionFilePath r) GCS_FILE_PREFIX
             \<and> HasPrefix (SourceConnectionConfig r) GCS_FILE_PREFIX \<and> GcsDataDirectory r \<noteq> ''''),
       SmtBucketName :=
          (if HasPrefix (SessionFilePath r) GCS_FILE_PREFIX
             \<and> HasPrefix (SourceConnectionConfig r) GCS_FILE_PREFIX \<and> GcsDataDirectory r \<noteq> ''''
           then '''' else ''smt-rr-gcs-'' @ u)\<rparr>"
  by (simp add: stagingBucket_def Let_def)

lemma requiredFields_snd:
  "\<exists>a b. snd (requiredFields r) = r\<lparr>SessionFileGcsPath := a, SourceConnectionConfigGcsPath := b\<rparr>"
proof -
  have "snd (requiredFields r) =
          r\<lparr>SessionFileGcsPath := SessionFileGcsPath (snd (requiredFields r)),
            SourceConnectionConfigGcsPath := SourceConnectionConfigGcsPath (snd (requiredFields r))\<rparr>"
    by (cases "InstanceId r = ''''"; cases "DatabaseId r = ''''"; cases "SessionFilePath r = ''''";
        cases "SourceConnectionConfig r = ''''"; cases "SpannerProjectId r = ''''";
        cases "HasPrefix (SessionFilePath r) GCS_FILE_PREFIX";
        cases "HasPrefix (SourceConnectionConfig r) GCS_FILE_PREFIX";
        simp add: requiredFields_def Let_def)
  then show ?thesis by blast
qed

lemma jobAndSourceType_eq:
  "jobAndSourceType k r u =
     (if SourceType r \<noteq> '''' \<and> SourceType r \<noteq> MYSQL k
      then (Some (SourceType r @
              '' is not a valid source type for reverse replication. Only supported source type is mysql''),
            r\<lparr>JobName := (if JobName r = '''' then ''smt-job-'' @ u else JobName r)\<rparr>)
      else (None, r\<lparr>JobName := (if JobName r = '''' then ''smt-job-'' @ u else JobName r),
                     SourceType := MYSQL k\<rparr>))"
  by (cases "JobName r = ''''"; cases "SourceType r = ''''"; cases "SourceType r = MYSQL k";
      simp add: jobAndSourceType_def Let_def)

lemma metadataAndDataDirectory_eq:
  "metadataAndDataDirectory r u =
     (if GcsDataDirectory r \<noteq> '''' \<and> \<not> HasPrefix (GcsDataDirectory r) GCS_FILE_PREFIX
      then (Some (''invalid gcs path for GcsDataDirectory: '' @ GcsDataDirectory r),
            r\<lparr>MetadataInstance :=
                (if MetadataInstance r = '''' then InstanceId r else MetadataInstance r),
              MetadataDatabase :=
                (if MetadataDatabase r = '''' then ''smt-rr-metadata-'' @ u
                 else MetadataDatabase r)\<rparr>)
      else (None,
            r\<lparr>MetadataInstance :=
                (if MetadataInstance r = '''' then InstanceId r else MetadataInstance r),
              MetadataDatabase :=
                (if MetadataDatabase r = '''' then ''smt-rr-metadata-'' @ u
                 else MetadataDatabase r),
              GcsDataDirectory :=
                (if GcsDataDirectory r = ''''
                 then ''gs://smt-rr-gcs-'' @ u @ ''/reverse-replication/data''
                 else GcsDataDirectory r)\<rparr>))"
  by (cases "MetadataInstance r = ''''"; cases "MetadataDatabase r = ''''";
      cases "GcsDataDirectory r = ''''"; cases "HasPrefix (GcsDataDirectory r) GCS_FILE_PREFIX";
      simp add: metadataAndDataDirectory_def Let_def)

lemma streamAndMode_snd:
  "\<exists>a b c. snd (streamAndMode k r u) =
     r\<lparr>ChangeStreamName :=
         (if ChangeStreamName r = '''' then ''smt-rr-cs-'' @ u else ChangeStreamName r),
       FiltrationMode := a, TimerInterval := b, WindowDuration := c\<rparr>"
proof -
  have "snd (streamAndMode k r u) =
     r\<lparr>ChangeStreamName :=
         (if ChangeStreamName r = '''' then ''smt-rr-cs-'' @ u else ChangeStreamName r),
       FiltrationMode := FiltrationMode (snd (streamAndMode k r u)),
       TimerInterval := TimerInterval (snd (streamAndMode k r u)),
       WindowDuration := WindowDuration (snd (streamAndMode k r u))\<rparr>"
    by (cases "ChangeStreamName r = ''''"; cases "FiltrationMode r = ''''";
        cases "FiltrationMode r \<in> set [RR_READER_FILTER_FWD k, RR_READER_FILTER_NONE k]";
        cases "TimerInterval r < 1"; cases "WindowDuration r = ''''";
        simp add: streamAndMode_def Let_def andThen_def)
  then show ?thesis by blast
qed

lemma shardingChecks_snd: "snd (shardingChecks r) = r"
  by (cases "ShardingCustomJarPath r = ''''"; cases "ShardingCustomClassName r = ''''"; 
      cases "HasPrefix (ShardingCustomJarPath r) GCS_FILE_PREFIX"; simp add: shardingChecks_def)

lemma requiredFields_missing:
  "missingRequired r \<noteq> [] \<Longrightarrow>
     fst (requiredFields r) =
       Some (''found empty '' @ hd (missingRequired r) @ '' which is a required parameter'')"
    by (cases "InstanceId r = ''''"; cases "DatabaseId r = ''''"; cases "SessionFilePath r = ''''";
        cases "SourceConnectionConfig r = ''''"; cases "SpannerProjectId r = ''''";
        simp add: requiredFields_def missingRequired_def Let_def)

lemma requiredFields_ok:
  "(fst (requiredFields r) = None) = (missingRequired r = [])"
    by (cases "InstanceId r = ''''"; cases "DatabaseId r = ''''"; cases "SessionFilePath r = ''''";
        cases "SourceConnectionConfig r = ''''"; cases "SpannerProjectId r = ''''";
        simp add: requiredFields_def missingRequired_def Let_def)

subsection \<open>Fields that a block leaves alone\<close>

lemma requiredFields_keeps:
  "IsSMTBucketRequired (snd (requiredFields r)) = IsSMTBucketRequired r"
  "SmtBucketName (snd (requiredFields r)) = SmtBucketName r"
  "JobName (snd (requiredFields r)) = JobName r"
  "InstanceId (snd (requiredFields r)) = InstanceId r"
  "MetadataInstance (snd (requiredFields r)) = MetadataInstance r"
  "MetadataDatabase (snd (requiredFields r)) = MetadataDatabase r"
  "GcsDataDirectory (snd (requiredFields r)) = GcsDataDirectory r"
  "ChangeStreamName (snd (requiredFields r)) = ChangeStreamName r"
  using requiredFields_snd[of r] by auto

lemma jobAndSourceType_keeps:
  "IsSMTBucketRequired (snd (jobAndSourceType k r u)) = IsSMTBucketRequired r"
  "SmtBucketName (snd (jobAndSourceType k r u)) = SmtBucketName r"
  "InstanceId (snd (jobAndSourceType k r u)) = InstanceId r"
  "MetadataInstance (snd (jobAndSourceType k r u)) = MetadataInstance r"
  "MetadataDatabase (snd (jobAndSourceType k r u)) = MetadataDatabase r"
  "GcsDataDirectory (snd (jobAndSourceType k r u)) = GcsDataDirectory r"
  "ChangeStreamName (snd (jobAndSourceType k r u)) = ChangeStreamName r"
  by (simp_all add: jobAndSourceType_eq)

lemma jobAndSourceType_JobName:
  "JobName (snd (jobAndSourceType k r u)) =
     (if JobName r = '''' then ''smt-job-'' @ u else JobName r)"
  by (simp add: jobAndSourceType_eq)

lemma metadataAndDataDirectory_keeps:
  "IsSMTBucketRequired (snd (metadataAndDataDirectory r u)) = IsSMTBucketRequired r"
  "SmtBucketName (snd (metadataAndDataDirectory r u)) = SmtBucketName r"
  "JobName (snd (metadataAndDataDirectory r u)) = JobName r"
  "ChangeStreamName (snd (metadataAndDataDirectory r u)) = ChangeStreamName r"
  by (simp_all add: metadataAndDataDirectory_eq)

lemma streamAndMode_keeps:
  "IsSMTBucketRequired (snd (streamAndMode k r u)) = IsSMTBucketRequired r"
  "SmtBucketName (snd (streamAndMode k r u)) = SmtBucketName r"
  "JobName (snd (streamAndMode k r u)) = JobName r"
  "MetadataInstance (snd (streamAndMode k r u)) = MetadataInstance r"
  "MetadataDatabase (snd (streamAndMode k r u)) = MetadataDatabase r"
  "GcsDataDirectory (snd (streamAndMode k r u)) = GcsDataDirectory r"
  using streamAndMode_snd[of k r u] by auto

lemma streamAndMode_ChangeStreamName:
  "ChangeStreamName (snd (streamAndMode k r u)) =
     (if ChangeStreamName r = '''' then ''smt-rr-cs-'' @ u else ChangeStreamName r)"
  using streamAndMode_snd[of k r u] by auto

subsection \<open>The normalizer as a whole\<close>

lemma localChecks_bucket:
  "IsSMTBucketRequired (snd (localChecks k r u)) = IsSMTBucketRequired (stagingBucket r u)"
  "SmtBucketName (snd (localChecks k r u)) = SmtBucketName (stagingBucket r u)"
  by (simp_all add: localChecks_def andThen_field shardingChecks_snd streamAndMode_keeps
      metadataAndDataDirectory_keeps jobAndSourceType_keeps requiredFields_keeps)

lemma validate_fst:
  "fst (validateAndUpdateJobData env r u h) =
     (case localChecks (pkgConstants env) r u of
        (Some e, q) \<Rightarrow> Some e
      | (None, q) \<Rightarrow>
          snd (GetSpannerLeaderLocation env
                 (''projects/'' @ SpannerProjectId q @ ''/instances/'' @ InstanceId q) h))"
  by (simp add: validateAndUpdateJobData_def Let_def split: prod.splits option.splits)

lemma validate_struct:
  "fst (snd (validateAndUpdateJobData env r u h)) =
     (case localChecks (pkgConstants env) r u of
        (Some e, q) \<Rightarrow> q
      | (None, q) \<Rightarrow>
          q\<lparr>ChangeStreamName := Replace (ChangeStreamName q) ''-'' ''_'',
            SpannerLocation :=
              fst (GetSpannerLeaderLocation env
                     (''projects/'' @ SpannerProjectId q @ ''/instances/'' @ InstanceId q) h)\<rparr>)"
  by (simp add: validateAndUpdateJobData_def Let_def split: prod.splits option.splits)

lemma validate_ok_localChecks:
  assumes "fst (validateAndUpdateJobData env r u h) = None"
  obtains q where "localChecks (pkgConstants env) r u = (None, q)"
  using assms unfolding validate_fst
  by (cases "localChecks (pkgConstants env) r u") (auto split: option.splits)

lemma localChecks_None:
  assumes "localChecks k r u = (None, q)"
  shows "JobName q = (if JobName r = '''' then ''smt-job-'' @ u else JobName r)"
    and "MetadataInstance q =
           (if MetadataInstance r = '''' then InstanceId r else MetadataInstance r)"
    and "MetadataDatabase q =
           (if MetadataDatabase r = '''' then ''smt-rr-metadata-'' @ u else MetadataDatabase r)"
    and "GcsDataDirectory q =
           (if GcsDataDirectory r = '''' then ''gs://smt-rr-gcs-'' @ u @ ''/reverse-replication/data''
            else GcsDataDirectory r)"
    and "ChangeStreamName q =
           (if ChangeStreamName r = '''' then ''smt-rr-cs-'' @ u else ChangeStreamName r)"
proof -
  from assms obtain r1 r2 r3 r4 where
    1: "requiredFields (stagingBucket r u) = (None, r1)" and
    2: "jobAndSourceType k r1 u = (None, r2)" and
    3: "metadataAndDataDirectory r2 u = (None, r3)" and
    4: "streamAndMode k r3 u = (None, r4)" and
    5: "shardingChecks r4 = (None, q)"
    unfolding localChecks_def andThen_None by blast
  have e1: "snd (requiredFields (stagingBucket r u)) = r1" using 1 by simp
  have e2: "snd (jobAndSourceType k r1 u) = r2" using 2 by simp
  have e3: "snd (metadataAndDataDirectory r2 u) = r3" using 3 by simp
  have e4: "snd (streamAndMode k r3 u) = r4" using 4 by simp
  have e5: "q = r4" using 5 shardingChecks_snd[of r4] by simp
  have f1: "JobName r1 = JobName r" "MetadataInstance r1 = MetadataInstance r"
    "MetadataDatabase r1 = MetadataDatabase r" "GcsDataDirectory r1 = GcsDataDirectory r"
    "ChangeStreamName r1 = ChangeStreamName r" "InstanceId r1 = InstanceId r"
    using requiredFields_keeps[of "stagingBucket r u"] unfolding e1
    by (simp_all add: stagingBucket_eq)
  have f2: "JobName r2 = (if JobName r = '''' then ''smt-job-'' @ u else JobName r)"
    "MetadataInstance r2 = MetadataInstance r" "MetadataDatabase r2 = MetadataDatabase r"
    "GcsDataDirectory r2 = GcsDataDirectory r" "ChangeStreamName r2 = ChangeStreamName r"
    "InstanceId r2 = InstanceId r"
    using jobAndSourceType_keeps[of k r1 u] jobAndSourceType_JobName[of k r1 u] unfolding e2
    by (simp_all add: f1)
  have ok3: "\<not> (GcsDataDirectory r2 \<noteq> '''' \<and> \<not> HasPrefix (GcsDataDirectory r2) GCS_FILE_PREFIX)"
    using 3 unfolding metadataAndDataDirectory_eq by (auto split: if_splits)
  have r3: "r3 = r2\<lparr>MetadataInstance :=
                (if MetadataInstance r2 = '''' then InstanceId r2 else MetadataInstance r2),
              MetadataDatabase :=
                (if MetadataDatabase r2 = '''' then ''smt-rr-metadata-'' @ u
                 else MetadataDatabase r2),
              GcsDataDirectory :=
                (if GcsDataDirectory r2 = ''''
                 then ''gs://smt-rr-gcs-'' @ u @ ''/reverse-replication/data''
                 else GcsDataDirectory r2)\<rparr>"
    using 3 ok3 unfolding metadataAndDataDirectory_eq by (simp split: if_splits)
  have f3: "JobName r3 = JobName r2" "ChangeStreamName r3 = ChangeStreamName r2"
    "MetadataInstance r3 = (if MetadataInstance r = '''' then InstanceId r else MetadataInstance r)"
    "MetadataDatabase r3 =
           (if MetadataDatabase r = '''' then ''smt-rr-metadata-'' @ u else MetadataDatabase r)"
    "GcsDataDirectory r3 =
           (if GcsDataDirectory r = '''' then ''gs://smt-rr-gcs-'' @ u @ ''/reverse-replication/data''
            else GcsDataDirectory r)"
    unfolding r3 by (simp_all add: f2)
  have f4: "JobName r4 = JobName r3" "MetadataInstance r4 = MetadataInstance r3"
    "MetadataDatabase r4 = MetadataDatabase r3" "GcsDataDirectory r4 = GcsDataDirectory r3"
    "ChangeStreamName r4 =
       (if ChangeStreamName r3 = '''' then ''smt-rr-cs-'' @ u else ChangeStreamName r3)"
    using streamAndMode_keeps[of k r3 u] streamAndMode_ChangeStreamName[of k r3 u] unfolding e4
    by simp_all
  show "JobName q = (if JobName r = '''' then ''smt-job-'' @ u else JobName r)"
    unfolding e5 by (simp add: f4 f3 f2)
  show "MetadataInstance q =
           (if MetadataInstance r = '''' then InstanceId r else MetadataInstance r)"
    unfolding e5 by (simp add: f4 f3)
  show "MetadataDatabase q =
           (if MetadataDatabase r = '''' then ''smt-rr-metadata-'' @ u else MetadataDatabase r)"
    unfolding e5 by (simp add: f4 f3)
  show "GcsDataDirectory q =
           (if GcsDataDirectory r = '''' then ''gs://smt-rr-gcs-'' @ u @ ''/reverse-replication/data''
            else GcsDataDirectory r)"
    unfolding e5 by (simp add: f4 f3)
  show "ChangeStreamName q =
           (if ChangeStreamName r = '''' then ''smt-rr-cs-'' @ u else ChangeStreamName r)"
    unfolding e5 by (simp add: f4 f3 f2)
qed

lemma localChecks_bad_directory:
  assumes "GcsDataDirectory r \<noteq> ''''" and "\<not> HasPrefix (GcsDataDirectory r) GCS_FILE_PREFIX"
  shows "fst (localChecks k r u) \<noteq> None"
proof
  assume "fst (localChecks k r u) = None"
  then obtain q where "localChecks k r u = (None, q)"
    by (cases "localChecks k r u") auto
  then obtain r1 r2 r3 where
    1: "requiredFields (stagingBucket r u) = (None, r1)" and
    2: "jobAndSourceType k r1 u = (None, r2)" and
    3: "metadataAndDataDirectory r2 u = (None, r3)"
    unfolding localChecks_def andThen_None by blast
  have e1: "snd (requiredFields (stagingBucket r u)) = r1" using 1 by simp
  have e2: "snd (jobAndSourceType k r1 u) = r2" using 2 by simp
  have "GcsDataDirectory r1 = GcsDataDirectory r"
    using requiredFields_keeps[of "stagingBucket r u"] unfolding e1
    by (simp add: stagingBucket_eq)
  then have "GcsDataDirectory r2 = GcsDataDirectory r"
    using jobAndSourceType_keeps[of k r1 u] unfolding e2 by simp
  with assms have "fst (metadataAndDataDirectory r2 u) \<noteq> None"
    by (simp add: metadataAndDataDirectory_eq)
  with 3 show False by simp
qed

lemma localChecks_missing:
  assumes "missingRequired r \<noteq> []"
  shows "fst (localChecks k r u) =
       Some (''found empty '' @ hd (missingRequired r) @ '' which is a required parameter'')"
proof -
  let ?e = "''found empty '' @ hd (missingRequired r) @ '' which is a required parameter''"
  have m: "missingRequired (stagingBucket r u) = missingRequired r"
    by (simp add: missingRequired_def stagingBucket_eq)
  have 1: "fst (requiredFields (stagingBucket r u)) = Some ?e"
    using requiredFields_missing[of "stagingBucket r u"] assms by (simp add: m)
  have 2: "andThen (requiredFields (stagingBucket r u)) f = requiredFields (stagingBucket r u)" for f
    by (rule andThen_error[OF 1])
  show ?thesis
    unfolding localChecks_def by (simp add: 2 1)
qed

lemma validate_missing:
  assumes "missingRequired r \<noteq> []"
  shows "validateAndUpdateJobData env r u h =
       (Some (''found empty '' @ hd (missingRequired r) @ '' which is a required parameter''),
        snd (localChecks (pkgConstants env) r u), h)"
proof -
  obtain e q where lc: "localChecks (pkgConstants env) r u = (e, q)"
    by (cases "localChecks (pkgConstants env) r u")
  with localChecks_missing[OF assms, of "pkgConstants env" u]
  have "e = Some (''found empty '' @ hd (missingRequired r) @ '' which is a required parameter'')"
    by simp
  with lc show ?thesis by (simp add: validateAndUpdateJobData_def)
qed

subsection \<open>Replacing hyphens\<close>

lemma HasPrefix_single: "HasPrefix (c # s) [a] = (c = a)"
  by (simp add: HasPrefix_def)

lemma Replace_single: "Replace s [a] [b] = map (\<lambda>c. if c = a then b else c) s"
  by (induction s) (simp_all add: HasPrefix_single)

subsection \<open>Concrete runs of the normalizer\<close>

lemma localChecks_request0:
  "localChecks k0 request0 ''abc'' =
     (None, request0\<lparr>IsSMTBucketRequired := True, SmtBucketName := ''smt-rr-gcs-abc'',
        SessionFileGcsPath := ''gs://smt-rr-gcs-abc/session.json'',
        SourceConnectionConfigGcsPath := ''gs://smt-rr-gcs-abc/source-connection-config.json'',
        JobName := ''smt-job-abc'', SourceType := ''mysql'', MetadataInstance := ''inst'',
        MetadataDatabase := ''smt-rr-metadata-abc'',
        GcsDataDirectory := ''gs://smt-rr-gcs-abc/reverse-replication/data'',
        ChangeStreamName := ''smt-rr-cs-abc'', FiltrationMode := ''forward_migration'',
        TimerInterval := 1, WindowDuration := ''10s''\<rparr>)"
  by (simp add: localChecks_def stagingBucket_def requiredFields_def jobAndSourceType_def
      metadataAndDataDirectory_def streamAndMode_def shardingChecks_def andThen_def Let_def
      request0_def k0_def HasPrefix_def GCS_FILE_PREFIX_def)

lemma validate_request0:
  "validateAndUpdateJobData env0 request0 ''abc'' [] =
     (None,
      request0\<lparr>IsSMTBucketRequired := True, SmtBucketName := ''smt-rr-gcs-abc'',
        SessionFileGcsPath := ''gs://smt-rr-gcs-abc/session.json'',
        SourceConnectionConfigGcsPath := ''gs://smt-rr-gcs-abc/source-connection-config.json'',
        JobName := ''smt-job-abc'', SourceType := ''mysql'', MetadataInstance := ''inst'',
        MetadataDatabase := ''smt-rr-metadata-abc'',
        GcsDataDirectory := ''gs://smt-rr-gcs-abc/reverse-replication/data'',
        ChangeStreamName := ''smt_rr_cs_abc'', FiltrationMode := ''forward_migration'',
        TimerInterval := 1, WindowDuration := ''10s'', SpannerLocation := ''us-central1''\<rparr>,
      [Ev_GetSpannerLeaderLocation ''projects/proj/instances/inst''])"
proof -
  have k: "pkgConstants env0 = k0" by (simp add: env0_def)
  have g: "GetSpannerLeaderLocation env0 = (\<lambda>uri h. (''us-central1'', None))"
    by (simp add: env0_def)
  show ?thesis
    unfolding validateAndUpdateJobData_def k localChecks_request0
    by (simp add: g Let_def request0_def HasPrefix_single)
qed

subsection \<open>The loop\<close>




lemma runActivities_trace_shape:
  "\<exists>n. n \<le> length acts \<and>
       snd (snd (runActivities k acts s tr)) = tr @ map TransactionCalled [k..<k + n]"
proof (induction acts arbitrary: k s tr)
  case Nil
  then show ?case by simp
next
  case (Cons a acts)
  obtain r s' where t: "Transaction a s = (r, s')" by (cases "Transaction a s")
  show ?case
  proof (cases "r = Inr None")
    case True
    from Cons.IH[of "Suc k" s' "tr @ [TransactionCalled k]"] obtain n where
      n: "n \<le> length acts"
        "snd (snd (runActivities (Suc k) acts s' (tr @ [TransactionCalled k]))) =
           (tr @ [TransactionCalled k]) @ map TransactionCalled [Suc k..<Suc k + n]"
      by blast
    have "[k..<k + Suc n] = k # [Suc k..<Suc k + n]"
      by (simp del: upt_Suc add: upt_conv_Cons)
    with n t True have "Suc n \<le> length (a # acts) \<and>
       snd (snd (runActivities k (a # acts) s tr)) = tr @ map TransactionCalled [k..<k + Suc n]"
      by (simp del: upt_Suc)
    then show ?thesis by blast
  next
    case False
    with t have "snd (snd (runActivities k (a # acts) s tr)) = tr @ [TransactionCalled k]"
      by (auto split: sum.splits option.splits)
    then have "Suc 0 \<le> length (a # acts) \<and>
       snd (snd (runActivities k (a # acts) s tr)) = tr @ map TransactionCalled [k..<k + Suc 0]"
      by simp
    then show ?thesis by blast
  qed
qed


subsection \<open>The store\<close>

lemma runActivities_keeps:
  assumes "\<And>a s r s'. a \<in> set acts \<Longrightarrow> Transaction a s = (r, s') \<Longrightarrow> f s' = f s"
    and "runActivities k acts s tr = (res, s', tr')"
  shows "f s' = f s"
  using assms
proof (induction acts arbitrary: k s tr)
  case Nil
  then show ?case by simp
next
  case (Cons a acts)
  obtain r s1 where t: "Transaction a s = (r, s1)" by (cases "Transaction a s")
  have f1: "f s1 = f s" using Cons.prems(1)[OF _ t] by simp
  show ?case
  proof (cases "r = Inr None")
    case True
    with Cons.prems(2) t
    have "runActivities (Suc k) acts s1 (tr @ [TransactionCalled k]) = (res, s', tr')"
      by simp
    then have "f s' = f s1"
      using Cons.IH Cons.prems(1) by (meson list.set_intros(2))
    with f1 show ?thesis by simp
  next
    case False
    with Cons.prems(2) t have "s' = s1"
      by (auto split: sum.splits option.splits)
    with f1 show ?thesis by simp
  qed
qed

lemma PrepareChangeStream_Transaction_store:
  "PrepareChangeStream_Transaction env input m = (r, m') \<Longrightarrow> store m' = store m"
  by (auto simp: PrepareChangeStream_Transaction_def Let_def
      split: prod.splits option.splits if_splits)

lemma PrepareDataflowReader_Transaction_store:
  "PrepareDataflowReader_Transaction env input m = (r, m') \<Longrightarrow> store m' = store m"
  by (auto simp: PrepareDataflowReader_Transaction_def Let_def
      split: prod.splits option.splits sum.splits)

lemma other_store: "Transaction (other env a) m = (r, m') \<Longrightarrow> store m' = store m"
  by (auto simp: other_def)

lemma activitiesOf_store:
  assumes "a \<in> set (activitiesOf env request smtJobId jobData)"
    and "Transaction a m = (r, m')"
  shows "store m' = store m"
proof -
  from assms(1) consider (o) x where "a = other env x"
    | (c) i where "a = PrepareChangeStream env i"
    | (d) i where "a = PrepareDataflowReader env i"
    unfolding activitiesOf_def by auto
  then show ?thesis
  proof cases
    case o
    with assms(2) show ?thesis by (simp add: other_store)
  next
    case c
    with assms(2) show ?thesis
      by (simp add: PrepareChangeStream_def PrepareChangeStream_Transaction_store)
  next
    case d
    with assms(2) show ?thesis
      by (simp add: PrepareDataflowReader_def PrepareDataflowReader_Transaction_store)
  qed
qed

lemma runActivities_activitiesOf_store:
  "store (fst (snd (runActivities k (activitiesOf env request smtJobId jobData) m tr))) = store m"
proof -
  obtain res m' tr' where
    run: "runActivities k (activitiesOf env request smtJobId jobData) m tr = (res, m', tr')"
    by (metis prod_cases3)
  have "store m' = store m"
    by (rule runActivities_keeps[OF _ run]) (rule activitiesOf_store)
  with run show ?thesis by simp
qed

lemma CreateWorkflow_store:
  "store (fst (snd (CreateWorkflow env arg m))) =
     store m @ [fst (snd (validateAndUpdateJobData env arg (GenerateHashStr env (history m))
                            (history m)))]"
proof -
  obtain err m2 where
    v: "validateAndUpdateJobData_at env (length (store m)) (GenerateHashStr env (history m))
          (m\<lparr>store := store m @ [arg]\<rparr>) = (err, m2)"
    by (cases "validateAndUpdateJobData_at env (length (store m))
                 (GenerateHashStr env (history m)) (m\<lparr>store := store m @ [arg]\<rparr>)")
  have s2: "store m2 =
     store m @ [fst (snd (validateAndUpdateJobData env arg (GenerateHashStr env (history m))
                            (history m)))]"
    using v unfolding validateAndUpdateJobData_at_def
    by (auto simp: Let_def split: prod.splits)
  have "store (fst (snd (CreateWorkflow env arg m))) = store m2"
    unfolding CreateWorkflow_def using v
    by (simp add: Let_def runActivities_activitiesOf_store split: option.splits prod.splits)
  with s2 show ?thesis by simp
qed

subsection \<open>Entering the loop\<close>





section \<open>The claims\<close>




text \<open>
  C2. The claim asks that, when a \<^verbatim>\<open>Transaction\<close> fails, the \<^verbatim>\<open>Compensation\<close> of the
  activities already completed be called in reverse order, and that what it returns be
  reported. The loop that runs calls no \<^verbatim>\<open>Compensation\<close>: with three activities of which
  the last fails, the journal holds the three transactions and nothing after them; and
  for no list of activities and no state is a \<^verbatim>\<open>Compensation\<close> among the calls made.
\<close>

theorem no_compensation_on_failure:
  "runActivities 0 threeActivities [] [] =
     (Inr (Some ''error executing activity #2: a2 failed''),
      [''Transaction a0'', ''Transaction a1'', ''Transaction a2''],
      [TransactionCalled 0, TransactionCalled 1, TransactionCalled 2])
   \<and> CompensationCalled j \<notin> set (snd (snd (runActivities 0 activities s [])))"
proof -
  have run: "runActivities 0 threeActivities [] [] =
     (Inr (Some ''error executing activity #2: a2 failed''),
      [''Transaction a0'', ''Transaction a1'', ''Transaction a2''],
      [TransactionCalled 0, TransactionCalled 1, TransactionCalled 2])"
    by (simp add: threeActivities_def journalled_def itoa.simps)
  obtain n where
    "snd (snd (runActivities 0 activities s [])) = [] @ map TransactionCalled [0..<0 + n]"
    using runActivities_trace_shape[of activities 0 s "[]"] by blast
  then have "CompensationCalled j \<notin> set (snd (snd (runActivities 0 activities s [])))"
    by auto
  with run show ?thesis by blast
qed

text \<open>
  C3. A request in which one of the five required fields (\<^verbatim>\<open>InstanceId\<close>, \<^verbatim>\<open>DatabaseId\<close>,
  \<^verbatim>\<open>SessionFilePath\<close>, \<^verbatim>\<open>SourceConnectionConfig\<close>, \<^verbatim>\<open>SpannerProjectId\<close>) is empty is
  rejected by the normalizer with an error that names a field that is empty (the first in
  the order of the tests), before any call leaves the process. \<^verbatim>\<open>CreateWorkflow\<close> then
  returns that error behind the words \<^verbatim>\<open>error in validateCreateRequest\<close>: it has written
  nothing to the history (no metadata database, no dao client, no activity), the loop has
  made no call, and the only new thing in the state is its own copy of the request.
\<close>

theorem missing_required_field_rejected:
  assumes "missingRequired request \<noteq> []"
  shows "hd (missingRequired request) \<in> set (missingRequired request)
    \<and> validateAndUpdateJobData env request uuid h =
        (Some (''found empty '' @ hd (missingRequired request) @ '' which is a required parameter''),
         snd (localChecks (pkgConstants env) request uuid), h)
    \<and> CreateWorkflow env request m =
        (Inr (Some (''error in validateCreateRequest: found empty '' @ hd (missingRequired request)
                    @ '' which is a required parameter'')),
         m\<lparr>store := store m @
              [snd (localChecks (pkgConstants env) request (GenerateHashStr env (history m)))]\<rparr>,
         [])"
proof -
  have a: "hd (missingRequired request) \<in> set (missingRequired request)"
    using assms by simp
  have c: "CreateWorkflow env request m =
        (Inr (Some (''error in validateCreateRequest: found empty '' @ hd (missingRequired request)
                    @ '' which is a required parameter'')),
         m\<lparr>store := store m @
              [snd (localChecks (pkgConstants env) request (GenerateHashStr env (history m)))]\<rparr>,
         [])"
    by (simp add: CreateWorkflow_def validateAndUpdateJobData_at_def Let_def
        validate_missing[OF assms])
  from a c validate_missing[OF assms] show ?thesis by blast
qed

text \<open>
  Database and project missing: the error names the database, which is tested first.
\<close>

theorem missing_required_field_rejected_witness:
  "missingRequired (request0\<lparr>DatabaseId := '''', SpannerProjectId := ''''\<rparr>) =
     [''DatabaseId'', ''SpannerProjectId'']
   \<and> fst (validateAndUpdateJobData env0 (request0\<lparr>DatabaseId := '''', SpannerProjectId := ''''\<rparr>)
           ''abc'' []) = Some ''found empty DatabaseId which is a required parameter''
   \<and> fst (CreateWorkflow env0 (request0\<lparr>DatabaseId := '''', SpannerProjectId := ''''\<rparr>) m0) =
       Inr (Some ''error in validateCreateRequest: found empty DatabaseId which is a required parameter'')
   \<and> history (fst (snd (CreateWorkflow env0
         (request0\<lparr>DatabaseId := '''', SpannerProjectId := ''''\<rparr>) m0))) = []
   \<and> snd (snd (CreateWorkflow env0
         (request0\<lparr>DatabaseId := '''', SpannerProjectId := ''''\<rparr>) m0)) = []"
proof -
  let ?r = "request0\<lparr>DatabaseId := '''', SpannerProjectId := ''''\<rparr>"
  have mr: "missingRequired ?r = [''DatabaseId'', ''SpannerProjectId'']"
    by (simp add: missingRequired_def request0_def)
  then have ne: "missingRequired ?r \<noteq> []" by simp
  note th = missing_required_field_rejected[OF ne]
  have h0: "history m0 = []" by (simp add: m0_def)
  from th[of env0 "''abc''" "[]" m0] mr h0 show ?thesis by simp
qed

text \<open>
  C4, as amended. Of a request that the normalizer accepts: an unset job name becomes
  \<^verbatim>\<open>smt-job-<run-id>\<close> and an unset metadata database \<^verbatim>\<open>smt-rr-metadata-<run-id>\<close>; an
  unset metadata instance becomes the instance of the request; an unset data directory
  becomes \<^verbatim>\<open>gs://smt-rr-gcs-<run-id>/reverse-replication/data\<close>; the change stream name,
  \<^verbatim>\<open>smt-rr-cs-<run-id>\<close> if unset, has its hyphens replaced by underscores. And a data
  directory that is given without the prefix \<^verbatim>\<open>gs://\<close> makes the normalizer fail.
\<close>

theorem defaults_of_unset_names:
  "(fst (validateAndUpdateJobData env request uuid h) = None \<longrightarrow>
      JobName (fst (snd (validateAndUpdateJobData env request uuid h))) =
        (if JobName request = '''' then ''smt-job-'' @ uuid else JobName request)
    \<and> MetadataDatabase (fst (snd (validateAndUpdateJobData env request uuid h))) =
        (if MetadataDatabase request = '''' then ''smt-rr-metadata-'' @ uuid
         else MetadataDatabase request)
    \<and> MetadataInstance (fst (snd (validateAndUpdateJobData env request uuid h))) =
        (if MetadataInstance request = '''' then InstanceId request
         else MetadataInstance request)
    \<and> GcsDataDirectory (fst (snd (validateAndUpdateJobData env request uuid h))) =
        (if GcsDataDirectory request = ''''
         then ''gs://smt-rr-gcs-'' @ uuid @ ''/reverse-replication/data''
         else GcsDataDirectory request)
    \<and> ChangeStreamName (fst (snd (validateAndUpdateJobData env request uuid h))) =
        Replace (if ChangeStreamName request = '''' then ''smt-rr-cs-'' @ uuid
                 else ChangeStreamName request) ''-'' ''_'')
   \<and> (GcsDataDirectory request \<noteq> '''' \<and> \<not> HasPrefix (GcsDataDirectory request) ''gs://'' \<longrightarrow>
        fst (validateAndUpdateJobData env request uuid h) \<noteq> None)"
proof (intro conjI impI)
  assume ok: "fst (validateAndUpdateJobData env request uuid h) = None"
  then obtain q where lc: "localChecks (pkgConstants env) request uuid = (None, q)"
    by (rule validate_ok_localChecks)
  note f = localChecks_None[OF lc]
  have s: "fst (snd (validateAndUpdateJobData env request uuid h)) =
     q\<lparr>ChangeStreamName := Replace (ChangeStreamName q) ''-'' ''_'',
       SpannerLocation :=
         fst (GetSpannerLeaderLocation env
                (''projects/'' @ SpannerProjectId q @ ''/instances/'' @ InstanceId q) h)\<rparr>"
    unfolding validate_struct lc by simp
  show "JobName (fst (snd (validateAndUpdateJobData env request uuid h))) =
        (if JobName request = '''' then ''smt-job-'' @ uuid else JobName request)"
    unfolding s using f(1) by simp
  show "MetadataDatabase (fst (snd (validateAndUpdateJobData env request uuid h))) =
        (if MetadataDatabase request = '''' then ''smt-rr-metadata-'' @ uuid
         else MetadataDatabase request)"
    unfolding s using f(3) by simp
  show "MetadataInstance (fst (snd (validateAndUpdateJobData env request uuid h))) =
        (if MetadataInstance request = '''' then InstanceId request
         else MetadataInstance request)"
    unfolding s using f(2) by simp
  show "GcsDataDirectory (fst (snd (validateAndUpdateJobData env request uuid h))) =
        (if GcsDataDirectory request = ''''
         then ''gs://smt-rr-gcs-'' @ uuid @ ''/reverse-replication/data''
         else GcsDataDirectory request)"
    unfolding s using f(4) by simp
  show "ChangeStreamName (fst (snd (validateAndUpdateJobData env request uuid h))) =
        Replace (if ChangeStreamName request = '''' then ''smt-rr-cs-'' @ uuid
                 else ChangeStreamName request) ''-'' ''_''"
    unfolding s using f(5) by simp
next
  assume bad: "GcsDataDirectory request \<noteq> '''' \<and> \<not> HasPrefix (GcsDataDirectory request) ''gs://''"
  then have "fst (localChecks (pkgConstants env) request uuid) \<noteq> None"
    using localChecks_bad_directory[of request "pkgConstants env" uuid]
    by (simp add: GCS_FILE_PREFIX_def)
  then show "fst (validateAndUpdateJobData env request uuid h) \<noteq> None"
    unfolding validate_fst by (cases "localChecks (pkgConstants env) request uuid") auto
qed

theorem defaults_of_unset_names_witness:
  "fst (validateAndUpdateJobData env0 request0 ''abc'' []) = None
   \<and> JobName (fst (snd (validateAndUpdateJobData env0 request0 ''abc'' []))) = ''smt-job-abc''
   \<and> MetadataDatabase (fst (snd (validateAndUpdateJobData env0 request0 ''abc'' []))) =
       ''smt-rr-metadata-abc''
   \<and> MetadataInstance (fst (snd (validateAndUpdateJobData env0 request0 ''abc'' []))) = ''inst''
   \<and> GcsDataDirectory (fst (snd (validateAndUpdateJobData env0 request0 ''abc'' []))) =
       ''gs://smt-rr-gcs-abc/reverse-replication/data''
   \<and> ChangeStreamName (fst (snd (validateAndUpdateJobData env0 request0 ''abc'' []))) =
       ''smt_rr_cs_abc''
   \<and> GcsDataDirectory (request0\<lparr>GcsDataDirectory := ''/tmp/data''\<rparr>) \<noteq> ''''
   \<and> \<not> HasPrefix (GcsDataDirectory (request0\<lparr>GcsDataDirectory := ''/tmp/data''\<rparr>)) ''gs://''
   \<and> fst (validateAndUpdateJobData env0 (request0\<lparr>GcsDataDirectory := ''/tmp/data''\<rparr>)
           ''abc'' []) \<noteq> None"
proof -
  have ok: "fst (validateAndUpdateJobData env0 request0 ''abc'' []) = None"
    by (simp add: validate_request0)
  have bad: "GcsDataDirectory (request0\<lparr>GcsDataDirectory := ''/tmp/data''\<rparr>) \<noteq> ''''
     \<and> \<not> HasPrefix (GcsDataDirectory (request0\<lparr>GcsDataDirectory := ''/tmp/data''\<rparr>)) ''gs://''"
    by (simp add: HasPrefix_def)
  note a = defaults_of_unset_names[of env0 request0 "''abc''" "[]", THEN conjunct1, rule_format, OF ok]
  note b = defaults_of_unset_names[of env0 "request0\<lparr>GcsDataDirectory := ''/tmp/data''\<rparr>"
      "''abc''" "[]", THEN conjunct2, rule_format, OF bad]
  have "JobName (fst (snd (validateAndUpdateJobData env0 request0 ''abc'' []))) = ''smt-job-abc''
   \<and> MetadataDatabase (fst (snd (validateAndUpdateJobData env0 request0 ''abc'' []))) =
       ''smt-rr-metadata-abc''
   \<and> MetadataInstance (fst (snd (validateAndUpdateJobData env0 request0 ''abc'' []))) = ''inst''
   \<and> GcsDataDirectory (fst (snd (validateAndUpdateJobData env0 request0 ''abc'' []))) =
       ''gs://smt-rr-gcs-abc/reverse-replication/data''
   \<and> ChangeStreamName (fst (snd (validateAndUpdateJobData env0 request0 ''abc'' []))) =
       ''smt_rr_cs_abc''"
    using a by (simp add: request0_def HasPrefix_single)
  with ok bad b show ?thesis by blast
qed

text \<open>
  C4 as stated does not hold: for the accepted request \<open>request0\<close> and the run
  identifier \<^verbatim>\<open>abc\<close>, the metadata instance, the data directory and the change stream name
  are unset, and what they become does not end in \<^verbatim>\<open>-abc\<close>.
\<close>

theorem defaults_not_all_prefix_run_id:
  "fst (validateAndUpdateJobData env0 request0 ''abc'' []) = None
   \<and> MetadataInstance request0 = ''''
   \<and> MetadataInstance (fst (snd (validateAndUpdateJobData env0 request0 ''abc'' []))) = ''inst''
   \<and> \<not> hasRunIdSuffix
         (MetadataInstance (fst (snd (validateAndUpdateJobData env0 request0 ''abc'' [])))) ''abc''
   \<and> GcsDataDirectory request0 = ''''
   \<and> \<not> hasRunIdSuffix
         (GcsDataDirectory (fst (snd (validateAndUpdateJobData env0 request0 ''abc'' [])))) ''abc''
   \<and> ChangeStreamName request0 = ''''
   \<and> \<not> hasRunIdSuffix
         (ChangeStreamName (fst (snd (validateAndUpdateJobData env0 request0 ''abc'' [])))) ''abc''"
  unfolding validate_request0 by (simp add: request0_def hasRunIdSuffix_def)

text \<open>
  C5. For every request, whatever else the normalizer finds: it leaves
  \<^verbatim>\<open>IsSMTBucketRequired\<close> false and \<^verbatim>\<open>SmtBucketName\<close> empty exactly when the session file
  path and the source connection config both start with \<^verbatim>\<open>gs://\<close> and a data directory
  is given; in every other case the bucket is required and is named
  \<^verbatim>\<open>smt-rr-gcs-<run-id>\<close>.
\<close>

theorem staging_bucket_decision:
  "IsSMTBucketRequired (fst (snd (validateAndUpdateJobData env request uuid h))) =
     (\<not> (HasPrefix (SessionFilePath request) ''gs://''
          \<and> HasPrefix (SourceConnectionConfig request) ''gs://''
          \<and> GcsDataDirectory request \<noteq> ''''))
   \<and> SmtBucketName (fst (snd (validateAndUpdateJobData env request uuid h))) =
     (if HasPrefix (SessionFilePath request) ''gs://''
         \<and> HasPrefix (SourceConnectionConfig request) ''gs://''
         \<and> GcsDataDirectory request \<noteq> ''''
      then '''' else ''smt-rr-gcs-'' @ uuid)"
proof -
  obtain e q where lc: "localChecks (pkgConstants env) request uuid = (e, q)"
    by (cases "localChecks (pkgConstants env) request uuid")
  have q: "IsSMTBucketRequired q = IsSMTBucketRequired (stagingBucket request uuid)"
    "SmtBucketName q = SmtBucketName (stagingBucket request uuid)"
    using localChecks_bucket[of "pkgConstants env" request uuid] unfolding lc by simp_all
  have "IsSMTBucketRequired (fst (snd (validateAndUpdateJobData env request uuid h))) =
          IsSMTBucketRequired q"
    and "SmtBucketName (fst (snd (validateAndUpdateJobData env request uuid h))) =
          SmtBucketName q"
    unfolding validate_struct lc by (cases e; simp)+
  then show ?thesis
    unfolding q by (simp add: stagingBucket_eq GCS_FILE_PREFIX_def)
qed

theorem staging_bucket_decision_witness:
  "IsSMTBucketRequired (fst (snd (validateAndUpdateJobData env0 request0 ''abc'' [])))
   \<and> SmtBucketName (fst (snd (validateAndUpdateJobData env0 request0 ''abc'' []))) =
       ''smt-rr-gcs-abc''
   \<and> \<not> IsSMTBucketRequired (fst (snd (validateAndUpdateJobData env0
         (request0\<lparr>SessionFilePath := ''gs://b/session.json'',
                   SourceConnectionConfig := ''gs://b/source.json'',
                   GcsDataDirectory := ''gs://b/data''\<rparr>) ''abc'' [])))
   \<and> SmtBucketName (fst (snd (validateAndUpdateJobData env0
         (request0\<lparr>SessionFilePath := ''gs://b/session.json'',
                   SourceConnectionConfig := ''gs://b/source.json'',
                   GcsDataDirectory := ''gs://b/data''\<rparr>) ''abc'' []))) = ''''"
proof -
  let ?r = "request0\<lparr>SessionFilePath := ''gs://b/session.json'',
                   SourceConnectionConfig := ''gs://b/source.json'',
                   GcsDataDirectory := ''gs://b/data''\<rparr>"
  note a = staging_bucket_decision[of env0 request0 "''abc''" "[]"]
  note b = staging_bucket_decision[of env0 ?r "''abc''" "[]"]
  have "IsSMTBucketRequired (fst (snd (validateAndUpdateJobData env0 request0 ''abc'' [])))
   \<and> SmtBucketName (fst (snd (validateAndUpdateJobData env0 request0 ''abc'' []))) =
       ''smt-rr-gcs-abc''"
    unfolding a[THEN conjunct1] a[THEN conjunct2] by (simp add: request0_def HasPrefix_def)
  moreover have "\<not> IsSMTBucketRequired (fst (snd (validateAndUpdateJobData env0 ?r ''abc'' [])))
   \<and> SmtBucketName (fst (snd (validateAndUpdateJobData env0 ?r ''abc'' []))) = ''''"
    unfolding b[THEN conjunct1] b[THEN conjunct2] by (simp add: request0_def HasPrefix_def)
  ultimately show ?thesis by blast
qed

text \<open>
  C6. \<^verbatim>\<open>PrepareChangeStream.Transaction\<close>: if the change stream exists and its options
  do not validate, the error of the validation is returned and the calls made are the
  check and the validation, no creation; if it exists and its options validate, the
  result is \<^verbatim>\<open>nil\<close> after the same two calls; and
  \<^verbatim>\<open>CreateChangeStreamSMTResource\<close> is among the calls made exactly when the check has
  answered, without error, that the stream does not exist.
\<close>

theorem change_stream_three_cases:
  "(CheckIfChangeStreamExists env (ChangeStreamName_C input) (DbURI_C input) (history m) = (True, None)
      \<and> ValidateChangeStreamOptions env (ChangeStreamName_C input) (DbURI_C input)
          (history m @ [Ev_CheckIfChangeStreamExists (ChangeStreamName_C input) (DbURI_C input)])
          = Some e \<longrightarrow>
      PrepareChangeStream_Transaction env input m =
        (Inr (Some e),
         m\<lparr>history := history m @
              [Ev_CheckIfChangeStreamExists (ChangeStreamName_C input) (DbURI_C input),
               Ev_ValidateChangeStreamOptions (ChangeStreamName_C input) (DbURI_C input)],
           csOutput := (csOutput m)\<lparr>ExistsWithIncorrectOptions := True\<rparr>\<rparr>))
   \<and> (CheckIfChangeStreamExists env (ChangeStreamName_C input) (DbURI_C input) (history m) = (True, None)
      \<and> ValidateChangeStreamOptions env (ChangeStreamName_C input) (DbURI_C input)
          (history m @ [Ev_CheckIfChangeStreamExists (ChangeStreamName_C input) (DbURI_C input)])
          = None \<longrightarrow>
      PrepareChangeStream_Transaction env input m =
        (Inr None,
         m\<lparr>history := history m @
              [Ev_CheckIfChangeStreamExists (ChangeStreamName_C input) (DbURI_C input),
               Ev_ValidateChangeStreamOptions (ChangeStreamName_C input) (DbURI_C input)],
           csOutput := (csOutput m)\<lparr>Exists := True\<rparr>\<rparr>))
   \<and> (Ev_CreateChangeStreamSMTResource (SmtJobId_C input) (ChangeStreamName_C input) (DbURI_C input)
        \<in> set (drop (length (history m))
                 (history (snd (PrepareChangeStream_Transaction env input m))))) =
      (CheckIfChangeStreamExists env (ChangeStreamName_C input) (DbURI_C input) (history m)
        = (False, None))"
  by (cases "CheckIfChangeStreamExists env (ChangeStreamName_C input) (DbURI_C input) (history m)")
     (auto simp: PrepareChangeStream_Transaction_def Let_def split: option.splits)

text \<open>
  The three cases for the input built from \<open>request0\<close>, from a state with an empty
  history.
\<close>

theorem change_stream_three_cases_witness:
  "fst (PrepareChangeStream_Transaction envWrongOptions csInput0 m0) = Inr (Some ''wrong options'')
   \<and> history (snd (PrepareChangeStream_Transaction envWrongOptions csInput0 m0)) =
       [Ev_CheckIfChangeStreamExists ''smt_rr_cs_abc'' ''projects/proj/instances/inst/databases/db'',
        Ev_ValidateChangeStreamOptions ''smt_rr_cs_abc'' ''projects/proj/instances/inst/databases/db'']
   \<and> ExistsWithIncorrectOptions
       (csOutput (snd (PrepareChangeStream_Transaction envWrongOptions csInput0 m0)))
   \<and> fst (PrepareChangeStream_Transaction envRightOptions csInput0 m0) = Inr None
   \<and> history (snd (PrepareChangeStream_Transaction envRightOptions csInput0 m0)) =
       [Ev_CheckIfChangeStreamExists ''smt_rr_cs_abc'' ''projects/proj/instances/inst/databases/db'',
        Ev_ValidateChangeStreamOptions ''smt_rr_cs_abc'' ''projects/proj/instances/inst/databases/db'']
   \<and> Exists (csOutput (snd (PrepareChangeStream_Transaction envRightOptions csInput0 m0)))
   \<and> Ev_CreateChangeStreamSMTResource ''smt-job-abc'' ''smt_rr_cs_abc''
         ''projects/proj/instances/inst/databases/db''
       \<in> set (history (snd (PrepareChangeStream_Transaction env0 csInput0 m0)))"
proof -
  have h0: "history m0 = []"
    by (simp add: m0_def)
  have i: "ChangeStreamName_C csInput0 = ''smt_rr_cs_abc''"
    "DbURI_C csInput0 = ''projects/proj/instances/inst/databases/db''"
    "SmtJobId_C csInput0 = ''smt-job-abc''"
    by (simp_all add: csInput0_def)
  have wrong: "CheckIfChangeStreamExists envWrongOptions (ChangeStreamName_C csInput0)
        (DbURI_C csInput0) (history m0) = (True, None)
      \<and> ValidateChangeStreamOptions envWrongOptions (ChangeStreamName_C csInput0) (DbURI_C csInput0)
          (history m0 @ [Ev_CheckIfChangeStreamExists (ChangeStreamName_C csInput0)
                           (DbURI_C csInput0)]) = Some ''wrong options''"
    by (simp add: envWrongOptions_def)
  have right: "CheckIfChangeStreamExists envRightOptions (ChangeStreamName_C csInput0)
        (DbURI_C csInput0) (history m0) = (True, None)
      \<and> ValidateChangeStreamOptions envRightOptions (ChangeStreamName_C csInput0) (DbURI_C csInput0)
          (history m0 @ [Ev_CheckIfChangeStreamExists (ChangeStreamName_C csInput0)
                           (DbURI_C csInput0)]) = None"
    by (simp add: envRightOptions_def env0_def)
  have absent: "CheckIfChangeStreamExists env0 (ChangeStreamName_C csInput0) (DbURI_C csInput0)
        (history m0) = (False, None)"
    by (simp add: env0_def)
  note w = change_stream_three_cases[of envWrongOptions csInput0 m0 "''wrong options''",
      THEN conjunct1, rule_format, OF wrong]
  note r = change_stream_three_cases[of envRightOptions csInput0 m0 "''''",
      THEN conjunct2, THEN conjunct1, rule_format, OF right]
  note c = change_stream_three_cases[of env0 csInput0 m0 "''''",
      THEN conjunct2, THEN conjunct2]
  have "Ev_CreateChangeStreamSMTResource ''smt-job-abc'' ''smt_rr_cs_abc''
         ''projects/proj/instances/inst/databases/db''
       \<in> set (history (snd (PrepareChangeStream_Transaction env0 csInput0 m0)))"
    using c absent unfolding h0 i by simp
  then show ?thesis
    unfolding w r by (simp add: h0 i)
qed

text \<open>
  C7. The claim asks that \<^verbatim>\<open>validateUpdateReaderTuningCfg\<close> complete for a config whose
  label map is \<^verbatim>\<open>nil\<close>. Line 136 assigns to the map with no allocation before it (line 140
  does test \<^verbatim>\<open>AdditionalExperiments\<close> for \<^verbatim>\<open>nil\<close>): for every config with a \<^verbatim>\<open>nil\<close> label
  map the call panics, and so does the \<^verbatim>\<open>Transaction\<close> of the reader when the tuning file
  decodes to the zero config.
\<close>

theorem nil_label_map_panics:
  "validateUpdateReaderTuningCfg k hash (cfg\<lparr>AdditionalUserLabels := None\<rparr>) spannerProjectId
     spannerLocation smtJobId = Inl AssignmentToEntryInNilMap
   \<and> validateUpdateReaderTuningCfg k0 ''h'' zeroTuningConfig ''p1'' ''us-central1'' ''abc'' =
       Inl AssignmentToEntryInNilMap
   \<and> fst (PrepareDataflowReader_Transaction
            (env\<lparr>UnmarshalDataflowTuningConfig := (\<lambda>path h. (zeroTuningConfig, None))\<rparr>)
            input m) = Inl AssignmentToEntryInNilMap"
proof -
  have a: "validateUpdateReaderTuningCfg k' hash' (cfg'\<lparr>AdditionalUserLabels := None\<rparr>) p l j =
             Inl AssignmentToEntryInNilMap" for k' hash' cfg' p l j
    by (simp add: validateUpdateReaderTuningCfg_def Let_def)
  have z: "zeroTuningConfig = zeroTuningConfig\<lparr>AdditionalUserLabels := None\<rparr>"
    by (simp add: zeroTuningConfig_def)
  have b: "validateUpdateReaderTuningCfg k' hash' zeroTuningConfig p l j =
             Inl AssignmentToEntryInNilMap" for k' hash' p l j
    by (subst z) (rule a)
  have c: "fst (PrepareDataflowReader_Transaction
            (env\<lparr>UnmarshalDataflowTuningConfig := (\<lambda>path h. (zeroTuningConfig, None))\<rparr>)
            input m) = Inl AssignmentToEntryInNilMap"
    by (simp add: PrepareDataflowReader_Transaction_def Let_def b)
  from a b c show ?thesis by blast
qed

text \<open>
  C8. The parameters of the reader launch hold the keys \<^verbatim>\<open>shardingCustomJarPath\<close> and
  \<^verbatim>\<open>shardingCustomClassName\<close> exactly when the jar path of the input is not empty, then
  with the values of the input; the seventeen keys of the map literal are always there,
  and there is no other key. And this map is what \<^verbatim>\<open>Transaction\<close> hands on: once the tuning
  config is read and resolved, the request that it launches is the one that
  \<^verbatim>\<open>GetDataflowLaunchRequest\<close> makes of this map and the resolved config, and the job
  identifier that the launcher answers is what it stores in its output.
\<close>

theorem sharding_keys_only_when_set:
  "(''shardingCustomJarPath'' \<in> dom (readerParams k input)) = (ShardingCustomJarPath_R input \<noteq> '''')
   \<and> (''shardingCustomClassName'' \<in> dom (readerParams k input)) =
       (ShardingCustomJarPath_R input \<noteq> '''')
   \<and> set readerFixedKeys \<subseteq> dom (readerParams k input)
   \<and> dom (readerParams k input) \<subseteq>
       set readerFixedKeys \<union> {''shardingCustomJarPath'', ''shardingCustomClassName''}
   \<and> readerParams k input ''shardingCustomJarPath'' =
       (if ShardingCustomJarPath_R input \<noteq> '''' then Some (ShardingCustomJarPath_R input) else None)
   \<and> readerParams k input ''shardingCustomClassName'' =
       (if ShardingCustomJarPath_R input \<noteq> '''' then Some (ShardingCustomClassName_R input)
        else None)
   \<and> (UnmarshalDataflowTuningConfig env (TuningCfg_R input) (history m) = (cfg, None)
      \<and> validateUpdateReaderTuningCfg (pkgConstants env)
          (GenerateHashStr env
             (history m @ [Ev_UnmarshalDataflowTuningConfig (TuningCfg_R input)]))
          cfg (SpannerProjectId_R input) (SpannerLocation_R input) (SmtJobId_R input) = Inr cfg'
    \<longrightarrow>
      PrepareDataflowReader_Transaction env input m =
        (case GetDataflowLaunchRequest env (readerParams (pkgConstants env) input) cfg' of
           (dfLaunchReq, Some e) \<Rightarrow>
             (Inr (Some e),
              m\<lparr>history := history m @ [Ev_UnmarshalDataflowTuningConfig (TuningCfg_R input)]\<rparr>)
         | (dfLaunchReq, None) \<Rightarrow>
             (case CreateDataflowSMTResource env (SmtJobId_R input) dfLaunchReq
                     (history m @ [Ev_UnmarshalDataflowTuningConfig (TuningCfg_R input)]) of
                (dfJobId, Some e) \<Rightarrow>
                  (Inr (Some e),
                   m\<lparr>history := history m @
                        [Ev_UnmarshalDataflowTuningConfig (TuningCfg_R input),
                         Ev_CreateDataflowSMTResource (SmtJobId_R input)]\<rparr>)
              | (dfJobId, None) \<Rightarrow>
                  (Inr None,
                   m\<lparr>history := history m @
                        [Ev_UnmarshalDataflowTuningConfig (TuningCfg_R input),
                         Ev_CreateDataflowSMTResource (SmtJobId_R input)],
                     rdOutput := (rdOutput m)\<lparr>JobId := dfJobId\<rparr>\<rparr>))))"
proof -
  have keys: "(''shardingCustomJarPath'' \<in> dom (readerParams k input)) =
       (ShardingCustomJarPath_R input \<noteq> '''')
   \<and> (''shardingCustomClassName'' \<in> dom (readerParams k input)) =
       (ShardingCustomJarPath_R input \<noteq> '''')
   \<and> set readerFixedKeys \<subseteq> dom (readerParams k input)
   \<and> dom (readerParams k input) \<subseteq>
       set readerFixedKeys \<union> {''shardingCustomJarPath'', ''shardingCustomClassName''}
   \<and> readerParams k input ''shardingCustomJarPath'' =
       (if ShardingCustomJarPath_R input \<noteq> '''' then Some (ShardingCustomJarPath_R input) else None)
   \<and> readerParams k input ''shardingCustomClassName'' =
       (if ShardingCustomJarPath_R input \<noteq> '''' then Some (ShardingCustomClassName_R input)
        else None)"
    by (simp add: readerParams_def readerFixedKeys_def Let_def)
  have launch: "PrepareDataflowReader_Transaction env input m =
        (case GetDataflowLaunchRequest env (readerParams (pkgConstants env) input) cfg' of
           (dfLaunchReq, Some e) \<Rightarrow>
             (Inr (Some e),
              m\<lparr>history := history m @ [Ev_UnmarshalDataflowTuningConfig (TuningCfg_R input)]\<rparr>)
         | (dfLaunchReq, None) \<Rightarrow>
             (case CreateDataflowSMTResource env (SmtJobId_R input) dfLaunchReq
                     (history m @ [Ev_UnmarshalDataflowTuningConfig (TuningCfg_R input)]) of
                (dfJobId, Some e) \<Rightarrow>
                  (Inr (Some e),
                   m\<lparr>history := history m @
                        [Ev_UnmarshalDataflowTuningConfig (TuningCfg_R input),
                         Ev_CreateDataflowSMTResource (SmtJobId_R input)]\<rparr>)
              | (dfJobId, None) \<Rightarrow>
                  (Inr None,
                   m\<lparr>history := history m @
                        [Ev_UnmarshalDataflowTuningConfig (TuningCfg_R input),
                         Ev_CreateDataflowSMTResource (SmtJobId_R input)],
                     rdOutput := (rdOutput m)\<lparr>JobId := dfJobId\<rparr>\<rparr>)))"
    if u: "UnmarshalDataflowTuningConfig env (TuningCfg_R input) (history m) = (cfg, None)"
      and v: "validateUpdateReaderTuningCfg (pkgConstants env)
          (GenerateHashStr env
             (history m @ [Ev_UnmarshalDataflowTuningConfig (TuningCfg_R input)]))
          cfg (SpannerProjectId_R input) (SpannerLocation_R input) (SmtJobId_R input) = Inr cfg'"
    unfolding PrepareDataflowReader_Transaction_def
    by (simp add: Let_def u v split: prod.splits option.splits)
  from keys launch show ?thesis by blast
qed

text \<open>
  A launcher that answers with what it finds under \<^verbatim>\<open>shardingCustomJarPath\<close>: without a
  jar it finds no such key, with one it finds the jar.
\<close>

theorem sharding_keys_only_when_set_witness:
  "''shardingCustomJarPath'' \<notin> dom (readerParams k0 readerInput0)
   \<and> ''shardingCustomClassName'' \<notin> dom (readerParams k0 readerInput0)
   \<and> ''runMode'' \<in> dom (readerParams k0 readerInput0)
   \<and> readerParams k0 readerInputJar ''shardingCustomJarPath'' = Some ''gs://b/shard.jar''
   \<and> readerParams k0 readerInputJar ''shardingCustomClassName'' = Some ''com.example.Sharder''
   \<and> fst (PrepareDataflowReader_Transaction envRecording readerInput0 m0) = Inr None
   \<and> JobId (rdOutput (snd (PrepareDataflowReader_Transaction envRecording readerInput0 m0))) =
       ''launched without the key''
   \<and> fst (PrepareDataflowReader_Transaction envRecording readerInputJar m0) = Inr None
   \<and> JobId (rdOutput (snd (PrepareDataflowReader_Transaction envRecording readerInputJar m0))) =
       ''launched with gs://b/shard.jar''"
proof -
  have e: "ShardingCustomJarPath_R readerInput0 = ''''"
    "ShardingCustomJarPath_R readerInputJar = ''gs://b/shard.jar''"
    "ShardingCustomClassName_R readerInputJar = ''com.example.Sharder''"
    by (simp_all add: readerInput0_def readerInputJar_def)
  have f: "''runMode'' \<in> set readerFixedKeys"
    by (simp add: readerFixedKeys_def)
  have k: "pkgConstants envRecording = k0"
    by (simp add: envRecording_def env0_def)
  have u: "UnmarshalDataflowTuningConfig envRecording p hh =
             (zeroTuningConfig\<lparr>AdditionalUserLabels := Some Map.empty\<rparr>, None)" for p hh
    by (simp add: envRecording_def env0_def)
  have g: "GetDataflowLaunchRequest envRecording params c = ((params, c), None)" for params c
    by (simp add: envRecording_def env0_def)
  have c: "CreateDataflowSMTResource envRecording job req hh =
             (case fst req ''shardingCustomJarPath'' of
                None \<Rightarrow> ''launched without the key''
              | Some v \<Rightarrow> ''launched with '' @ v, None)" for job req hh
    by (simp add: envRecording_def)
  have v: "\<exists>cfg'. validateUpdateReaderTuningCfg (pkgConstants envRecording) hash
             (zeroTuningConfig\<lparr>AdditionalUserLabels := Some Map.empty\<rparr>) p l j = Inr cfg'"
    for hash p l j
    by (simp add: validateUpdateReaderTuningCfg_def Let_def zeroTuningConfig_def)
  obtain cfg0 where v0: "validateUpdateReaderTuningCfg (pkgConstants envRecording)
          (GenerateHashStr envRecording
             (history m0 @ [Ev_UnmarshalDataflowTuningConfig (TuningCfg_R readerInput0)]))
          (zeroTuningConfig\<lparr>AdditionalUserLabels := Some Map.empty\<rparr>)
          (SpannerProjectId_R readerInput0) (SpannerLocation_R readerInput0)
          (SmtJobId_R readerInput0) = Inr cfg0"
    using v by blast
  obtain cfg1 where v1: "validateUpdateReaderTuningCfg (pkgConstants envRecording)
          (GenerateHashStr envRecording
             (history m0 @ [Ev_UnmarshalDataflowTuningConfig (TuningCfg_R readerInputJar)]))
          (zeroTuningConfig\<lparr>AdditionalUserLabels := Some Map.empty\<rparr>)
          (SpannerProjectId_R readerInputJar) (SpannerLocation_R readerInputJar)
          (SmtJobId_R readerInputJar) = Inr cfg1"
    using v by blast
  note a = sharding_keys_only_when_set[of k0 readerInput0 envRecording m0 _ cfg0]
  note b = sharding_keys_only_when_set[of k0 readerInputJar envRecording m0 _ cfg1]
  have a1: "''shardingCustomJarPath'' \<notin> dom (readerParams k0 readerInput0)
   \<and> ''shardingCustomClassName'' \<notin> dom (readerParams k0 readerInput0)"
    using a e by simp
  have a2: "''runMode'' \<in> dom (readerParams k0 readerInput0)"
    using a f by blast
  have a3: "readerParams k0 readerInput0 ''shardingCustomJarPath'' = None"
    using a e by simp
  have b1: "readerParams k0 readerInputJar ''shardingCustomJarPath'' = Some ''gs://b/shard.jar''
    \<and> readerParams k0 readerInputJar ''shardingCustomClassName'' = Some ''com.example.Sharder''"
    using b e by simp
  have ta: "PrepareDataflowReader_Transaction envRecording readerInput0 m0 =
      (Inr None,
       m0\<lparr>history := history m0 @
              [Ev_UnmarshalDataflowTuningConfig (TuningCfg_R readerInput0),
               Ev_CreateDataflowSMTResource (SmtJobId_R readerInput0)],
          rdOutput := (rdOutput m0)\<lparr>JobId := ''launched without the key''\<rparr>\<rparr>)"
    using a[THEN conjunct2, THEN conjunct2, THEN conjunct2, THEN conjunct2, THEN conjunct2,
        THEN conjunct2, rule_format, OF conjI[OF u v0]]
    by (simp add: g c k a3)
  have tb: "PrepareDataflowReader_Transaction envRecording readerInputJar m0 =
      (Inr None,
       m0\<lparr>history := history m0 @
              [Ev_UnmarshalDataflowTuningConfig (TuningCfg_R readerInputJar),
               Ev_CreateDataflowSMTResource (SmtJobId_R readerInputJar)],
          rdOutput := (rdOutput m0)\<lparr>JobId := ''launched with gs://b/shard.jar''\<rparr>\<rparr>)"
    using b[THEN conjunct2, THEN conjunct2, THEN conjunct2, THEN conjunct2, THEN conjunct2,
        THEN conjunct2, rule_format, OF conjI[OF u v1]]
    by (simp add: g c k b1)
  show ?thesis
    unfolding ta tb using a1 a2 b1 by simp
qed

text \<open>
  C9. Line 107 replaces every hyphen of the change stream name by an underscore, byte by
  byte: no hyphen is left, a name without hyphens stays as it is, doing it twice is doing
  it once, \<^verbatim>\<open>a-b-c\<close> becomes \<^verbatim>\<open>a_b_c\<close>; and for a request that the normalizer accepts the
  name it leaves is the given name, or \<^verbatim>\<open>smt-rr-cs-<run-id>\<close> if none was given, treated
  so.
\<close>

theorem change_stream_name_normalization:
  "Replace s ''-'' ''_'' = map (\<lambda>c. if c = CHR ''-'' then CHR ''_'' else c) s
   \<and> CHR ''-'' \<notin> set (Replace s ''-'' ''_'')
   \<and> (CHR ''-'' \<notin> set s \<longrightarrow> Replace s ''-'' ''_'' = s)
   \<and> Replace (Replace s ''-'' ''_'') ''-'' ''_'' = Replace s ''-'' ''_''
   \<and> Replace ''a-b-c'' ''-'' ''_'' = ''a_b_c''
   \<and> (fst (validateAndUpdateJobData env request uuid h) = None \<longrightarrow>
        ChangeStreamName (fst (snd (validateAndUpdateJobData env request uuid h))) =
          Replace (if ChangeStreamName request = '''' then ''smt-rr-cs-'' @ uuid
                   else ChangeStreamName request) ''-'' ''_'')"
proof -
  have m: "Replace t ''-'' ''_'' = map (\<lambda>c. if c = CHR ''-'' then CHR ''_'' else c) t" for t
    by (rule Replace_single)
  have nohyphen: "CHR ''-'' \<notin> set (Replace s ''-'' ''_'')"
    unfolding m by auto
  have same: "CHR ''-'' \<notin> set t \<Longrightarrow> Replace t ''-'' ''_'' = t" for t
    unfolding m by (induction t) auto
  have idem: "Replace (Replace s ''-'' ''_'') ''-'' ''_'' = Replace s ''-'' ''_''"
    by (rule same[OF nohyphen])
  have ex: "Replace ''a-b-c'' ''-'' ''_'' = ''a_b_c''"
    by (simp add: HasPrefix_single)
  have v: "ChangeStreamName (fst (snd (validateAndUpdateJobData env request uuid h))) =
          Replace (if ChangeStreamName request = '''' then ''smt-rr-cs-'' @ uuid
                   else ChangeStreamName request) ''-'' ''_''"
    if ok: "fst (validateAndUpdateJobData env request uuid h) = None"
  proof -
    from ok obtain q where lc: "localChecks (pkgConstants env) request uuid = (None, q)"
      by (rule validate_ok_localChecks)
    show ?thesis
      unfolding validate_struct lc using localChecks_None(5)[OF lc] by simp
  qed
  from m[of s] nohyphen same[of s] idem ex v show ?thesis by blast
qed

theorem change_stream_name_normalization_witness:
  "CHR ''-'' \<notin> set ''orders_cs''
   \<and> Replace ''orders_cs'' ''-'' ''_'' = ''orders_cs''
   \<and> Replace (Replace ''my-orders-cs'' ''-'' ''_'') ''-'' ''_'' = ''my_orders_cs''
   \<and> fst (validateAndUpdateJobData env0 request0 ''abc'' []) = None
   \<and> ChangeStreamName (fst (snd (validateAndUpdateJobData env0 request0 ''abc'' []))) =
       ''smt_rr_cs_abc''
   \<and> ChangeStreamName
       (fst (snd (validateAndUpdateJobData env0 (request0\<lparr>ChangeStreamName := ''my-orders-cs''\<rparr>)
          ''abc'' []))) = ''my_orders_cs''"
proof -
  have nh: "CHR ''-'' \<notin> set ''orders_cs''" by simp
  have ok: "fst (validateAndUpdateJobData env0 request0 ''abc'' []) = None"
    by (simp add: validate_request0)
  have ok2: "fst (validateAndUpdateJobData env0 (request0\<lparr>ChangeStreamName := ''my-orders-cs''\<rparr>)
          ''abc'' []) = None"
    unfolding validate_fst
    by (simp add: localChecks_def stagingBucket_def requiredFields_def jobAndSourceType_def
      metadataAndDataDirectory_def streamAndMode_def shardingChecks_def andThen_def Let_def
      request0_def k0_def env0_def HasPrefix_def GCS_FILE_PREFIX_def)
  note t1 = change_stream_name_normalization[of "''orders_cs''" env0 request0 "''abc''" "[]"]
  note t2 = change_stream_name_normalization[of "''my-orders-cs''" env0
      "request0\<lparr>ChangeStreamName := ''my-orders-cs''\<rparr>" "''abc''" "[]"]
  have a: "Replace ''orders_cs'' ''-'' ''_'' = ''orders_cs''"
    using t1 nh by blast
  have b: "ChangeStreamName (fst (snd (validateAndUpdateJobData env0 request0 ''abc'' []))) =
       Replace (if ChangeStreamName request0 = '''' then ''smt-rr-cs-'' @ ''abc''
                   else ChangeStreamName request0) ''-'' ''_''"
    using t1 ok by blast
  have c: "ChangeStreamName
       (fst (snd (validateAndUpdateJobData env0 (request0\<lparr>ChangeStreamName := ''my-orders-cs''\<rparr>)
          ''abc'' []))) =
       Replace (if ChangeStreamName (request0\<lparr>ChangeStreamName := ''my-orders-cs''\<rparr>) = ''''
                then ''smt-rr-cs-'' @ ''abc''
                else ChangeStreamName (request0\<lparr>ChangeStreamName := ''my-orders-cs''\<rparr>)) ''-'' ''_''"
    using t2 ok2 by blast
  have d: "Replace (Replace ''my-orders-cs'' ''-'' ''_'') ''-'' ''_'' = Replace ''my-orders-cs'' ''-'' ''_''"
    using t2 by blast
  have e1: "Replace ''my-orders-cs'' ''-'' ''_'' = ''my_orders_cs''"
    by (simp add: HasPrefix_single)
  have b': "ChangeStreamName (fst (snd (validateAndUpdateJobData env0 request0 ''abc'' []))) =
       ''smt_rr_cs_abc''"
    unfolding b by (simp add: request0_def HasPrefix_single)
  have c': "ChangeStreamName
       (fst (snd (validateAndUpdateJobData env0 (request0\<lparr>ChangeStreamName := ''my-orders-cs''\<rparr>)
          ''abc'' []))) = ''my_orders_cs''"
    unfolding c by (simp add: HasPrefix_single)
  from nh a d e1 ok b' c' show ?thesis by simp
qed

text \<open>
  C10. \<^verbatim>\<open>CreateWorkflow\<close> takes the request by value. Whatever the environment answers
  and however the call ends (an error of the normalizer, of the dao client, of an
  activity, a panic, success), every \<^verbatim>\<open>JobData\<close> variable that existed before the call
  holds what it held: the state has one variable more, the parameter, and it is this one
  that the normalizer has written to.
\<close>

theorem caller_request_unchanged:
  "take (length (store m)) (store (fst (snd (CreateWorkflow env arg m)))) = store m"
proof -
  show ?thesis
    unfolding CreateWorkflow_store by simp
qed

text \<open>
  The caller holds \<open>request0\<close> at address 0; after the call it is still there, and
  the job name that the normalizer has filled in is in the copy at address 1.
\<close>

theorem caller_request_unchanged_witness:
  "store m0 = [request0]
   \<and> length (store (fst (snd (CreateWorkflow env0 request0 m0)))) = 2
   \<and> store (fst (snd (CreateWorkflow env0 request0 m0))) ! 0 = request0
   \<and> JobName (store (fst (snd (CreateWorkflow env0 request0 m0))) ! 1) = ''smt-job-abc''
   \<and> JobName request0 = ''''"
proof -
  have s0: "store m0 = [request0]" by (simp add: m0_def)
  have j0: "JobName request0 = ''''" by (simp add: request0_def)
  have t: "take (length (store m0)) (store (fst (snd (CreateWorkflow env0 request0 m0)))) = store m0"
    by (rule caller_request_unchanged)
  have g: "GenerateHashStr env0 h = ''abc''" "history m0 = []" for h
    by (simp_all add: env0_def m0_def)
  have c: "store (fst (snd (CreateWorkflow env0 request0 m0))) =
             [request0, fst (snd (validateAndUpdateJobData env0 request0 ''abc'' []))]"
    unfolding CreateWorkflow_store g s0 by simp
  have "store (fst (snd (CreateWorkflow env0 request0 m0))) ! 0 = request0"
    using t unfolding s0 by (simp add: c)
  moreover have "JobName (store (fst (snd (CreateWorkflow env0 request0 m0))) ! 1) = ''smt-job-abc''"
    unfolding c validate_request0 by simp
  moreover have "length (store (fst (snd (CreateWorkflow env0 request0 m0)))) = 2"
    unfolding c by simp
  ultimately show ?thesis using s0 j0 by blast
qed

end
